theory Spec2Isabelle
  imports Complex_Main
begin

section \<open>Python values, errors and the few builtins the module relies on\<close>

text \<open>
  The module \<open>train_full.py\<close> has three entry points: \<open>train\<close>, \<open>test\<close> and
  \<open>predict_age_gender\<close>. Tensors of floats are lists of reals here (floating point is
  idealised: no rounding, no infinities, no NaN); a tensor of shape (B, 2) is a list of
  B pairs (column 0, column 1). Every \<open>raise\<close> of the source, and every exception a
  builtin throws on the paths modelled, is a value \<open>Inl e\<close>.
\<close>

datatype error =
    KeyError string
  | ValueError
  | TypeError
  | RuntimeError
  | ZeroDivisionError
  | IOError
  | Exception string

datatype pyval =
    PNone
  | PBool bool
  | PInt int
  | PFloat real
  | PStr string
  | PList "pyval list"

text \<open>A dict keeps insertion order; assigning an existing key keeps its position.\<close>

type_synonym pydict = "(string \<times> pyval) list"

fun dict_get :: "pydict \<Rightarrow> string \<Rightarrow> pyval option" where
  "dict_get [] k = None"
| "dict_get ((k', v) # d) k = (if k' = k then Some v else dict_get d k)"

fun dict_set :: "pydict \<Rightarrow> string \<Rightarrow> pyval \<Rightarrow> pydict" where
  "dict_set [] k v = [(k, v)]"
| "dict_set ((k', v') # d) k v = (if k' = k then (k', v) # d else (k', v') # dict_set d k v)"

text \<open>\<open>d.update(e)\<close>: the items of \<open>e\<close> are assigned in order.\<close>

fun dict_update :: "pydict \<Rightarrow> pydict \<Rightarrow> pydict" where
  "dict_update d [] = d"
| "dict_update d ((k, v) # e) = dict_update (dict_set d k v) e"

text \<open>\<open>d[k]\<close> raises KeyError on a missing key.\<close>

definition dict_item :: "pydict \<Rightarrow> string \<Rightarrow> error + pyval" where
  "dict_item d k = (case dict_get d k of None \<Rightarrow> Inl (KeyError k) | Some v \<Rightarrow> Inr v)"

text \<open>\<open>range(start, stop, step)\<close>, with its ValueError on a zero step.\<close>

definition py_range :: "int \<Rightarrow> int \<Rightarrow> int \<Rightarrow> error + int list" where
  "py_range start stop step =
     (if step = 0 then Inl ValueError
      else if 0 < step then
        Inr (map (\<lambda>i. start + int i * step) [0..<nat ((stop - start + step - 1) div step)])
      else
        Inr (map (\<lambda>i. start + int i * step) [0..<nat ((start - stop - step - 1) div (- step))]))"

text \<open>\<open>xs[i:j]\<close>: negative bounds count from the end, and both are clipped.\<close>

definition py_slice :: "'a list \<Rightarrow> int \<Rightarrow> int \<Rightarrow> 'a list" where
  "py_slice xs i j =
     (let n = int (length xs);
          lo = (if i < 0 then max 0 (n + i) else min i n);
          hi = (if j < 0 then max 0 (n + j) else min j n)
      in take (nat (hi - lo)) (drop (nat lo) xs))"

text \<open>\<open>torch.stack\<close> and \<open>torch.cat\<close> refuse an empty list of tensors.\<close>

definition torch_stack :: "'a list \<Rightarrow> error + 'a list" where
  "torch_stack ts = (if ts = [] then Inl RuntimeError else Inr ts)"

definition torch_cat :: "'a list list \<Rightarrow> error + 'a list" where
  "torch_cat ts = (if ts = [] then Inl RuntimeError else Inr (concat ts))"

definition sigmoid :: "real \<Rightarrow> real" where
  "sigmoid x = 1 / (1 + exp (- x))"

section \<open>predict\_age\_gender\<close>

text \<open>
  The parameters that stand for code outside the module:
  \<^item> \<open>py_int\<close> is the builtin \<open>int(...)\<close> applied to the record's value;
  \<^item> \<open>load sz p\<close> is \<open>get_image_transform((sz, sz))(Image.open(p))\<close>, which may raise;
  \<^item> \<open>model\<close> maps a stacked batch of images to its (B, 2) output.
\<close>

text \<open>The inner loop \<open>for p in images: img_tensor.append(...)\<close>.\<close>

fun load_images :: "(string \<Rightarrow> error + 'img) \<Rightarrow> string list \<Rightarrow> error + 'img list" where
  "load_images ld [] = Inr []"
| "load_images ld (p # ps) =
     (case ld p of
        Inl e \<Rightarrow> Inl e
      | Inr t \<Rightarrow> (case load_images ld ps of Inl e \<Rightarrow> Inl e | Inr ts \<Rightarrow> Inr (t # ts)))"

text \<open>Lines 482-484: column 0 becomes its sigmoid, thresholded at 0.5 unless \<open>return_pr\<close>.\<close>

definition gender_column :: "bool \<Rightarrow> (real \<times> real) list \<Rightarrow> (real \<times> real) list" where
  "gender_column return_pr pred =
     (let pred1 = map (\<lambda>(g, a). (sigmoid g, a)) pred
      in if \<not> return_pr then map (\<lambda>(g, a). (if g > 1 / 2 then 1 else 0, a)) pred1 else pred1)"

text \<open>The body of the batch loop, for the start indices \<open>k\<close> the range yields.\<close>

fun predict_batches ::
  "(string \<Rightarrow> error + 'img) \<Rightarrow> ('img list \<Rightarrow> (real \<times> real) list) \<Rightarrow> bool \<Rightarrow> string list \<Rightarrow>
     int \<Rightarrow> int list \<Rightarrow> error + (real \<times> real) list list" where
  "predict_batches ld model return_pr list_imgs batch_size [] = Inr []"
| "predict_batches ld model return_pr list_imgs batch_size (k # ks) =
     (case load_images ld (py_slice list_imgs k (k + batch_size)) of
        Inl e \<Rightarrow> Inl e
      | Inr img_tensor \<Rightarrow>
          (case torch_stack img_tensor of
             Inl e \<Rightarrow> Inl e
           | Inr stacked \<Rightarrow>
               (let pred = gender_column return_pr (model stacked)
                in case predict_batches ld model return_pr list_imgs batch_size ks of
                     Inl e \<Rightarrow> Inl e
                   | Inr predictions \<Rightarrow> Inr (pred # predictions))))"

text \<open>Line 490: \<open>res[:,1] = res[:,1].square().sqrt()\<close>.\<close>

definition force_positive_ages :: "(real \<times> real) list \<Rightarrow> (real \<times> real) list" where
  "force_positive_ages res = map (\<lambda>(g, a). (g, sqrt (a\<^sup>2))) res"

text \<open>Lines 462-463: the batch size cannot be higher than the number of images.\<close>

definition effective_batch_size :: "string list \<Rightarrow> int \<Rightarrow> int" where
  "effective_batch_size list_imgs batch_size =
     (if int (length list_imgs) < batch_size then int (length list_imgs) else batch_size)"

definition predict_age_gender ::
  "(pyval \<Rightarrow> error + int) \<Rightarrow> (int \<Rightarrow> string \<Rightarrow> error + 'img) \<Rightarrow>
     ('img list \<Rightarrow> (real \<times> real) list) \<Rightarrow> pydict \<Rightarrow> string list \<Rightarrow> bool \<Rightarrow> int \<Rightarrow>
     error + (real \<times> real) list" where
  "predict_age_gender py_int load model model_dict list_imgs return_pr batch_size =
     (let bs = effective_batch_size list_imgs batch_size
      in case dict_item model_dict ''train_suffix'' of
           Inl e \<Rightarrow> Inl e
         | Inr v \<Rightarrow>
             (case py_int v of
                Inl e \<Rightarrow> Inl e
              | Inr img_size \<Rightarrow>
                  (case py_range 0 (int (length list_imgs) - bs + 1) bs of
                     Inl e \<Rightarrow> Inl e
                   | Inr ks \<Rightarrow>
                       (case predict_batches (load img_size) model return_pr list_imgs bs ks of
                          Inl e \<Rightarrow> Inl e
                        | Inr predictions \<Rightarrow>
                            (case torch_cat predictions of
                               Inl e \<Rightarrow> Inl e
                             | Inr res \<Rightarrow> Inr (force_positive_ages res))))))"

section \<open>train\<close>

subsection \<open>Collaborators outside the module\<close>

text \<open>
  \<open>torch.nn.BCEWithLogitsLoss()\<close> and \<open>torch.nn.MSELoss()\<close> with their default mean
  reduction, over the reals. Batches are non-empty; on an empty batch torch yields nan,
  which this idealisation does not represent.
\<close>

definition BCEWithLogitsLoss :: "real list \<Rightarrow> real list \<Rightarrow> real" where
  "BCEWithLogitsLoss xs ys =
     sum_list (map2 (\<lambda>x y. - (y * ln (sigmoid x) + (1 - y) * ln (1 - sigmoid x))) xs ys)
       / real (length xs)"

definition MSELoss :: "real list \<Rightarrow> real list \<Rightarrow> real" where
  "MSELoss xs ys = sum_list (map2 (\<lambda>x y. (x - y)\<^sup>2) xs ys) / real (length xs)"

text \<open>\<open>np.mean\<close> of a non-empty list of floats (numpy yields nan on an empty one).\<close>

definition np_mean :: "real list \<Rightarrow> real" where
  "np_mean xs = sum_list xs / real (length xs)"

text \<open>
  Modelled from the spec: the class \<open>ConfusionMatrix\<close> of \<open>utils\<close> is not among the
  sources. It accumulates predictions against labels and its metrics are functions of
  what was accumulated, so the accumulator is the list of the \<open>(preds, labels)\<close> pairs
  added so far, and the metrics are parameters.
\<close>

type_synonym confusion_matrix = "(real list \<times> real list) list"

definition cm_new :: confusion_matrix where
  "cm_new = []"

definition cm_add :: "confusion_matrix \<Rightarrow> real list \<Rightarrow> real list \<Rightarrow> confusion_matrix" where
  "cm_add cm preds labels = cm @ [(preds, labels)]"

record cm_metrics =
  global_accuracy :: "confusion_matrix \<Rightarrow> real"
  average_accuracy :: "confusion_matrix \<Rightarrow> real"
  matthews_corrcoef :: "confusion_matrix \<Rightarrow> real"
  class_accuracy :: "confusion_matrix \<Rightarrow> real list"

text \<open>\<open>(pred[:, 0] > 0).float()\<close>\<close>

definition predicted_gender :: "(real \<times> real) list \<Rightarrow> real list" where
  "predicted_gender pred = map (\<lambda>x. if x > 0 then 1 else 0) (map fst pred)"

text \<open>
  A batch \<open>(img, age, gender)\<close>; a loader yields a list of batches each time it is
  iterated (the argument counts the iterations).
\<close>

type_synonym 'img batch = "'img \<times> real list \<times> real list"

record 'img data =
  loader_train :: "nat \<Rightarrow> 'img batch list"
  loader_valid :: "nat \<Rightarrow> 'img batch list"
  loader_test :: "nat \<Rightarrow> 'img batch list"

datatype optimizer = SGD | Adam | AdamW

datatype plateau_mode = Min | Max

text \<open>
  The torch machinery, over a state \<open>'s\<close> that holds the weights, the optimizer and the
  scheduler: \<open>init_optim\<close> builds optimizer and \<open>ReduceLROnPlateau\<close> scheduler around the model,
  \<open>forward training\<close> is \<open>model(img)\<close> after \<open>model.train()\<close> (True) or \<open>model.eval()\<close>
  (False), \<open>backward_step\<close> is \<open>optimizer.zero_grad();
  loss_val.backward(); optimizer.step()\<close> for the loss of one batch, \<open>scheduler_step\<close> is
  \<open>scheduler.step(met)\<close> and \<open>current_lr\<close> reads \<open>optimizer.param_groups[0]['lr']\<close>.
\<close>

record ('s, 'img) learner =
  init_optim :: "optimizer \<Rightarrow> real \<Rightarrow> plateau_mode \<Rightarrow> int \<Rightarrow> 's"
  forward :: "bool \<Rightarrow> 's \<Rightarrow> 'img \<Rightarrow> (real \<times> real) list"
  backward_step :: "'s \<Rightarrow> 'img batch \<Rightarrow> real \<Rightarrow> 's"
  scheduler_step :: "'s \<Rightarrow> real \<Rightarrow> 's"
  current_lr :: "'s \<Rightarrow> real"

text \<open>Python's \<open>str\<close> of a dict and of a list of values.\<close>

record builtins =
  py_str_dict :: "pydict \<Rightarrow> string"
  py_str_list :: "pyval list \<Rightarrow> string"

text \<open>The effects of the module that leave the process, in the order they happen.\<close>

datatype 's event =
    SummaryWriter string string
  | LoadData
  | Backward real
  | AddScalar string real int
  | SaveModel 's string string pydict
  | SaveDict pydict string

subsection \<open>Names\<close>

text \<open>\<open>s.replace(c, new)\<close> for a one-character \<open>c\<close>.\<close>

definition replace_char :: "char \<Rightarrow> string \<Rightarrow> string \<Rightarrow> string" where
  "replace_char c new s = concat (map (\<lambda>x. if x = c then new else [x]) s)"

text \<open>The decimal digits of a natural number, and \<open>str\<close> of an int.\<close>

definition digit_char :: "nat \<Rightarrow> char" where
  "digit_char d = ''0123456789'' ! d"

function str_nat :: "nat \<Rightarrow> string" where
  "str_nat n = (if n < 10 then [digit_char n] else str_nat (n div 10) @ [digit_char (n mod 10)])"
  by pat_completeness auto
termination
  by (relation "measure id") auto

declare str_nat.simps [simp del]

definition str_int :: "int \<Rightarrow> string" where
  "str_int i = (if i < 0 then CHR ''-'' # str_nat (nat (- i)) else str_nat (nat i))"

record train_args =
  log_dir :: string
  save_path :: string
  lr :: real
  optimizer_name :: string
  n_epochs :: int
  batch_size :: int
  scheduler_mode :: string
  steps_save :: int
  loss_age_weight :: real
  scheduler_patience :: int
  suffix :: string

text \<open>Lines 79-87: of the names listed, \<open>transforms\<close> is no local of \<open>train\<close>.\<close>

definition dict_param :: "train_args \<Rightarrow> pydict" where
  "dict_param a =
     [(''train_lr'', PFloat (lr a)),
      (''train_optimizer_name'', PStr (optimizer_name a)),
      (''train_batch_size'', PInt (batch_size a)),
      (''train_scheduler_mode'', PStr (scheduler_mode a)),
      (''train_loss_age_weight'', PFloat (loss_age_weight a)),
      (''train_suffix'', PStr (suffix a))]"

text \<open>Lines 89-90.\<close>

definition name_dict :: "train_args \<Rightarrow> pydict \<Rightarrow> pydict" where
  "name_dict a dict_model = dict_update dict_model (dict_param a)"

text \<open>Lines 92-94.\<close>

definition name_model :: "builtins \<Rightarrow> pydict \<Rightarrow> string" where
  "name_model B nd =
     replace_char (CHR '':'') ''=''
       (replace_char (CHR '' '') ''''
         (replace_char (CHR 0x27) ''''
           (replace_char (CHR '','') ''/'' (py_slice (py_str_dict B nd) 1 (- 1)))))"

text \<open>Line 255.\<close>

definition name_path :: "builtins \<Rightarrow> pydict \<Rightarrow> string" where
  "name_path B nd =
     replace_char (CHR '' '') ''''
       (replace_char (CHR 0x27) ''''
         (replace_char (CHR '','') ''_'' (py_slice (py_str_list B (map snd nd)) 1 (- 1))))"

subsection \<open>The training and validation passes of one epoch\<close>

text \<open>The lists and the confusion matrix an epoch starts empty (lines 152-155), the
  weights, and the effects of the pass.\<close>

record 's epoch_state =
  ep_weights :: 's
  ep_train_loss :: "real list"
  ep_train_loss_gender :: "real list"
  ep_train_loss_age :: "real list"
  ep_train_cm :: confusion_matrix
  ep_trace :: "'s event list"

text \<open>Lines 159-178, the body of \<open>for img, age, gender in loader_train\<close>.\<close>

definition train_batch ::
  "('s, 'img) learner \<Rightarrow> real \<Rightarrow> 's epoch_state \<Rightarrow> 'img batch \<Rightarrow> 's epoch_state" where
  "train_batch L w st b =
     (case b of (img, age, gender) \<Rightarrow>
        (let pred = forward L True (ep_weights st) img;
             loss_val_gender = BCEWithLogitsLoss (map fst pred) gender;
             loss_val_age = MSELoss (map snd pred) age;
             loss_val = loss_val_gender + w * loss_val_age
         in st\<lparr>ep_weights := backward_step L (ep_weights st) b loss_val,
                ep_train_loss := ep_train_loss st @ [loss_val],
                ep_train_loss_age := ep_train_loss_age st @ [loss_val_age],
                ep_train_loss_gender := ep_train_loss_gender st @ [loss_val_gender],
                ep_train_cm := cm_add (ep_train_cm st) (predicted_gender pred) gender,
                ep_trace := ep_trace st @ [Backward loss_val]\<rparr>))"

fun train_batches ::
  "('s, 'img) learner \<Rightarrow> real \<Rightarrow> 'img batch list \<Rightarrow> 's epoch_state \<Rightarrow> 's epoch_state" where
  "train_batches L w [] st = st"
| "train_batches L w (b # bs) st = train_batches L w bs (train_batch L w st b)"

definition epoch_start :: "'s \<Rightarrow> 's epoch_state" where
  "epoch_start s =
     \<lparr>ep_weights = s, ep_train_loss = [], ep_train_loss_gender = [], ep_train_loss_age = [],
      ep_train_cm = cm_new, ep_trace = []\<rparr>"

record val_state =
  vl_cm :: confusion_matrix
  vl_mse_age :: "real list"

text \<open>Lines 185-191, the body of \<open>for img, age, gender in loader_valid\<close>.\<close>

definition valid_batch ::
  "('s, 'img) learner \<Rightarrow> 's \<Rightarrow> val_state \<Rightarrow> 'img batch \<Rightarrow> val_state" where
  "valid_batch L s vs b =
     (case b of (img, age, gender) \<Rightarrow>
        (let pred = forward L False s img
         in vs\<lparr>vl_cm := cm_add (vl_cm vs) (predicted_gender pred) gender,
                vl_mse_age := vl_mse_age vs @ [MSELoss (map snd pred) age]\<rparr>))"

fun valid_batches ::
  "('s, 'img) learner \<Rightarrow> 's \<Rightarrow> 'img batch list \<Rightarrow> val_state \<Rightarrow> val_state" where
  "valid_batches L s [] vs = vs"
| "valid_batches L s (b # bs) vs = valid_batches L s bs (valid_batch L s vs b)"

text \<open>Lines 194-198 and the two confusion matrices: what the rest of the epoch reads.\<close>

record epoch_metrics =
  mean_train_loss :: real
  mean_train_loss_gender :: real
  mean_train_loss_age :: real
  mean_val_mse_age :: real
  cm_train :: confusion_matrix
  cm_val :: confusion_matrix

subsection \<open>is\_better (lines 201-223)\<close>

text \<open>The number a stored value compares as; a string or a list is none.\<close>

fun py_number :: "pyval \<Rightarrow> real option" where
  "py_number (PBool b) = Some (if b then 1 else 0)"
| "py_number (PInt i) = Some (real_of_int i)"
| "py_number (PFloat r) = Some r"
| "py_number v = None"

text \<open>
  \<open>if (best_met := dict_model.get(key, None)) is not None: is_better = met <cmp> best_met\<close>,
  starting from \<open>is_better = False\<close>. Comparing the metric with a stored value that is
  no number is reported as TypeError.
\<close>

definition compare_best ::
  "(real \<Rightarrow> real \<Rightarrow> bool) \<Rightarrow> real \<Rightarrow> pyval option \<Rightarrow> error + (real option \<times> bool)" where
  "compare_best cmp met best_met =
     (case best_met of
        None \<Rightarrow> Inr (Some met, False)
      | Some PNone \<Rightarrow> Inr (Some met, False)
      | Some v \<Rightarrow>
          (case py_number v of
             None \<Rightarrow> Inl TypeError
           | Some b \<Rightarrow> Inr (Some met, cmp met b)))"

text \<open>The result is the pair \<open>(met, is_better)\<close>; \<open>met\<close> is None in the last branch.\<close>

definition select_metric ::
  "cm_metrics \<Rightarrow> string \<Rightarrow> pydict \<Rightarrow> epoch_metrics \<Rightarrow> error + (real option \<times> bool)" where
  "select_metric C mode d m =
     (if mode = ''min_loss'' then
        compare_best (\<le>) (mean_train_loss m) (dict_get d ''train_loss'')
      else if mode = ''min_mse'' then
        compare_best (\<le>) (mean_val_mse_age m) (dict_get d ''val_mse_age'')
      else if mode = ''max_acc'' then
        compare_best (\<ge>) (global_accuracy C (cm_train m)) (dict_get d ''train_acc'')
      else if mode = ''max_val_acc'' then
        compare_best (\<ge>) (global_accuracy C (cm_val m)) (dict_get d ''val_acc'')
      else if mode = ''max_val_mcc'' then
        compare_best (\<ge>) (matthews_corrcoef C (cm_val m)) (dict_get d ''val_mcc'')
      else Inr (None, False))"

subsection \<open>Logging (lines 228-240 and log\_confussion\_matrix)\<close>

definition log_confussion_matrix ::
  "cm_metrics \<Rightarrow> confusion_matrix \<Rightarrow> int \<Rightarrow> string \<Rightarrow> 's event list" where
  "log_confussion_matrix C cm gs sfx =
     [AddScalar (''acc_global_'' @ sfx) (global_accuracy C cm) gs,
      AddScalar (''acc_avg_'' @ sfx) (average_accuracy C cm) gs,
      AddScalar (''mcc_'' @ sfx) (matthews_corrcoef C cm) gs]
     @ map (\<lambda>(idx, k). AddScalar (''acc_class_'' @ str_nat idx @ ''_'' @ sfx) k gs)
         (enumerate 0 (class_accuracy C cm))"

definition log_epoch :: "cm_metrics \<Rightarrow> epoch_metrics \<Rightarrow> real \<Rightarrow> int \<Rightarrow> 's event list" where
  "log_epoch C m rate gs =
     [AddScalar ''loss_train'' (mean_train_loss m) gs,
      AddScalar ''loss_age_train'' (mean_train_loss_age m) gs,
      AddScalar ''loss_gender_train'' (mean_train_loss_gender m) gs]
     @ log_confussion_matrix C (cm_train m) gs ''train''
     @ [AddScalar ''mse_age_val'' (mean_val_mse_age m) gs]
     @ log_confussion_matrix C (cm_val m) gs ''val''
     @ [AddScalar ''lr'' rate gs]"

subsection \<open>Saving the model (lines 243-260)\<close>

text \<open>Lines 247-253: the epoch and the five metrics written into \<open>d\<close>.\<close>

definition set_metrics :: "cm_metrics \<Rightarrow> pydict \<Rightarrow> int \<Rightarrow> epoch_metrics \<Rightarrow> pydict" where
  "set_metrics C d epoch m =
     dict_set (dict_set (dict_set (dict_set (dict_set (dict_set d
       ''epoch'' (PInt (epoch + 1)))
       ''train_loss'' (PFloat (mean_train_loss m)))
       ''val_mse_age'' (PFloat (mean_val_mse_age m)))
       ''train_acc'' (PFloat (global_accuracy C (cm_train m))))
       ''val_acc'' (PFloat (global_accuracy C (cm_val m))))
       ''val_mcc'' (PFloat (matthews_corrcoef C (cm_val m)))"

text \<open>
  The result is the caller's \<open>dict_model\<close> after the block and the calls of
  \<open>save_model\<close> made. \<open>epoch % steps_save\<close> is evaluated first and raises on a zero
  \<open>steps_save\<close>; \<open>d\<close> is \<open>dict_model\<close> itself when \<open>is_better\<close>, a copy otherwise.
\<close>

definition save_checkpoint ::
  "builtins \<Rightarrow> cm_metrics \<Rightarrow> train_args \<Rightarrow> pydict \<Rightarrow> 's \<Rightarrow> int \<Rightarrow> bool \<Rightarrow> epoch_metrics \<Rightarrow>
     pydict \<Rightarrow> error + (pydict \<times> 's event list)" where
  "save_checkpoint B C a nd s epoch is_better m dm =
     (if steps_save a = 0 then Inl ZeroDivisionError
      else if epoch mod steps_save a = steps_save a - 1 \<or> is_better then
        (let d = set_metrics C dm epoch m;
             np = name_path B nd;
             np1 = (if \<not> is_better then np @ ''_'' @ str_int (epoch + 1) else np)
         in Inr (if is_better then d else dm, [SaveModel s (save_path a) np1 d]))
      else Inr (dm, []))"

subsection \<open>The epoch loop and train\<close>

record 's train_state =
  st_learner :: 's
  st_dict_model :: pydict
  st_global_step :: int
  st_effects :: "'s event list"

definition train_epoch ::
  "builtins \<Rightarrow> cm_metrics \<Rightarrow> ('s, 'img) learner \<Rightarrow> 'img data \<Rightarrow> train_args \<Rightarrow> pydict \<Rightarrow>
     's train_state \<Rightarrow> nat \<Rightarrow> error option \<times> 's train_state" where
  "train_epoch B C L D a nd st epoch =
     (let es = train_batches L (loss_age_weight a) (loader_train D epoch)
                 (epoch_start (st_learner st));
          vs = valid_batches L (ep_weights es) (loader_valid D epoch)
                 \<lparr>vl_cm = cm_new, vl_mse_age = []\<rparr>;
          m = \<lparr>mean_train_loss = np_mean (ep_train_loss es),
               mean_train_loss_gender = np_mean (ep_train_loss_gender es),
               mean_train_loss_age = np_mean (ep_train_loss_age es),
               mean_val_mse_age = np_mean (vl_mse_age vs),
               cm_train = ep_train_cm es, cm_val = vl_cm vs\<rparr>;
          st1 = st\<lparr>st_learner := ep_weights es, st_effects := st_effects st @ ep_trace es\<rparr>
      in case select_metric C (scheduler_mode a) (st_dict_model st) m of
           Inl e \<Rightarrow> (Some e, st1)
         | Inr (met, is_better) \<Rightarrow>
             (let s2 = (case met of None \<Rightarrow> ep_weights es
                        | Some x \<Rightarrow> scheduler_step L (ep_weights es) x);
                  gs = st_global_step st + 1;
                  st2 = st1\<lparr>st_learner := s2, st_global_step := gs,
                           st_effects := st_effects st1 @ log_epoch C m (current_lr L s2) gs\<rparr>
              in case save_checkpoint B C a nd s2 (int epoch) is_better m (st_dict_model st) of
                   Inl e \<Rightarrow> (Some e, st2)
                 | Inr (dm, evs) \<Rightarrow>
                     (None, st2\<lparr>st_dict_model := dm, st_effects := st_effects st2 @ evs\<rparr>)))"

fun train_epochs ::
  "builtins \<Rightarrow> cm_metrics \<Rightarrow> ('s, 'img) learner \<Rightarrow> 'img data \<Rightarrow> train_args \<Rightarrow> pydict \<Rightarrow>
     nat list \<Rightarrow> 's train_state \<Rightarrow> error option \<times> 's train_state" where
  "train_epochs B C L D a nd [] st = (None, st)"
| "train_epochs B C L D a nd (epoch # rest) st =
     (case train_epoch B C L D a nd st epoch of
        (Some e, st1) \<Rightarrow> (Some e, st1)
      | (None, st1) \<Rightarrow> train_epochs B C L D a nd rest st1)"

text \<open>Lines 131-138 and 140-145.\<close>

definition select_optimizer :: "string \<Rightarrow> error + optimizer" where
  "select_optimizer name =
     (if name = ''sgd'' then Inr SGD
      else if name = ''adam'' then Inr Adam
      else if name = ''adamw'' then Inr AdamW
      else Inl (Exception ''Optimizer not configured''))"

definition select_scheduler :: "string \<Rightarrow> error + plateau_mode" where
  "select_scheduler mode =
     (if mode \<in> set [''min_loss'', ''min_mse''] then Inr Min
      else if mode \<in> set [''max_acc'', ''max_val_acc'', ''max_val_mcc''] then Inr Max
      else Inl (Exception ''Optimizer not configured''))"

text \<open>
  What a call of \<open>train\<close> leaves behind: the exception it ended with, if any, the
  caller's \<open>dict_model\<close> object, and the effects in order. The arguments that only
  reach \<open>load_data\<close> or the choice of device are left out of \<open>train_args\<close>.
\<close>

record 's outcome =
  raised :: "error option"
  final_dict_model :: pydict
  all_effects :: "'s event list"

definition train ::
  "builtins \<Rightarrow> cm_metrics \<Rightarrow> ('s, 'img) learner \<Rightarrow> 'img data \<Rightarrow> train_args \<Rightarrow> pydict \<Rightarrow>
     's outcome" where
  "train B C L D a dict_model =
     (let nd = name_dict a dict_model;
          evs0 = [SummaryWriter (log_dir a) (name_model B nd), LoadData];
          dm = dict_update dict_model (dict_param a)
      in case select_optimizer (optimizer_name a) of
           Inl e \<Rightarrow> \<lparr>raised = Some e, final_dict_model = dm, all_effects = evs0\<rparr>
         | Inr opt \<Rightarrow>
             (case select_scheduler (scheduler_mode a) of
                Inl e \<Rightarrow> \<lparr>raised = Some e, final_dict_model = dm, all_effects = evs0\<rparr>
              | Inr pm \<Rightarrow>
                  (case train_epochs B C L D a nd [0..<nat (n_epochs a)]
                          \<lparr>st_learner = init_optim L opt (lr a) pm (scheduler_patience a),
                           st_dict_model = dm, st_global_step = 0, st_effects = evs0\<rparr> of
                     (err, st) \<Rightarrow>
                       \<lparr>raised = err, final_dict_model = st_dict_model st,
                        all_effects = st_effects st\<rparr>)))"

section \<open>test\<close>

text \<open>\<open>sklearn.metrics\<close> on one batch: the mean of the squared, or absolute, errors.\<close>

definition mean_squared_error :: "real list \<Rightarrow> real list \<Rightarrow> real" where
  "mean_squared_error y_true y_pred =
     sum_list (map2 (\<lambda>t p. (t - p)\<^sup>2) y_true y_pred) / real (length y_true)"

definition mean_absolute_error :: "real list \<Rightarrow> real list \<Rightarrow> real" where
  "mean_absolute_error y_true y_pred =
     sum_list (map2 (\<lambda>t p. \<bar>t - p\<bar>) y_true y_pred) / real (length y_true)"

text \<open>The three accumulators of one split during one run (lines 353-361).\<close>

record run_state =
  run_mse :: "real list"
  run_mae :: "real list"
  run_cm :: confusion_matrix

text \<open>The body of each of the three loops over a loader (lines 365-389).\<close>

definition eval_batch ::
  "('m \<Rightarrow> 'img \<Rightarrow> (real \<times> real) list) \<Rightarrow> 'm \<Rightarrow> run_state \<Rightarrow> 'img batch \<Rightarrow> run_state" where
  "eval_batch fwd model rs b =
     (case b of (img, age, gender) \<Rightarrow>
        (let pred = fwd model img
         in rs\<lparr>run_mse := run_mse rs @ [mean_squared_error age (map snd pred)],
                run_mae := run_mae rs @ [mean_absolute_error age (map snd pred)],
                run_cm := cm_add (run_cm rs) (predicted_gender pred) gender\<rparr>))"

fun eval_batches ::
  "('m \<Rightarrow> 'img \<Rightarrow> (real \<times> real) list) \<Rightarrow> 'm \<Rightarrow> 'img batch list \<Rightarrow> run_state \<Rightarrow> run_state" where
  "eval_batches fwd model [] rs = rs"
| "eval_batches fwd model (b # bs) rs = eval_batches fwd model bs (eval_batch fwd model rs b)"

definition eval_split ::
  "('m \<Rightarrow> 'img \<Rightarrow> (real \<times> real) list) \<Rightarrow> 'm \<Rightarrow> 'img batch list \<Rightarrow> run_state" where
  "eval_split fwd model batches =
     eval_batches fwd model batches \<lparr>run_mse = [], run_mae = [], run_cm = cm_new\<rparr>"

text \<open>The three lists of one split across the runs (lines 343-351).\<close>

record split_runs =
  sp_mse :: "real list"
  sp_mae :: "real list"
  sp_cm :: "confusion_matrix list"

text \<open>Lines 393-401, for one split.\<close>

definition append_run :: "split_runs \<Rightarrow> run_state \<Rightarrow> split_runs" where
  "append_run sp rs =
     sp\<lparr>sp_mse := sp_mse sp @ [np_mean (run_mse rs)],
        sp_mae := sp_mae sp @ [np_mean (run_mae rs)],
        sp_cm := sp_cm sp @ [run_cm rs]\<rparr>"

record runs_state =
  rs_train :: split_runs
  rs_val :: split_runs
  rs_test :: split_runs

text \<open>\<open>for k in range(n_runs)\<close>: the loaders are iterated once per run.\<close>

fun test_runs ::
  "('m \<Rightarrow> 'img \<Rightarrow> (real \<times> real) list) \<Rightarrow> 'm \<Rightarrow> 'img data \<Rightarrow> nat list \<Rightarrow> runs_state \<Rightarrow>
     runs_state" where
  "test_runs fwd model D [] acc = acc"
| "test_runs fwd model D (k # ks) acc =
     test_runs fwd model D ks
       \<lparr>rs_train = append_run (rs_train acc) (eval_split fwd model (loader_train D k)),
        rs_val = append_run (rs_val acc) (eval_split fwd model (loader_valid D k)),
        rs_test = append_run (rs_test acc) (eval_split fwd model (loader_test D k))\<rparr>"

definition no_runs :: runs_state where
  "no_runs =
     \<lparr>rs_train = \<lparr>sp_mse = [], sp_mae = [], sp_cm = []\<rparr>,
      rs_val = \<lparr>sp_mse = [], sp_mae = [], sp_cm = []\<rparr>,
      rs_test = \<lparr>sp_mse = [], sp_mae = [], sp_cm = []\<rparr>\<rparr>"

text \<open>Lines 403-419.\<close>

definition dict_result :: "cm_metrics \<Rightarrow> runs_state \<Rightarrow> pydict" where
  "dict_result C r =
     [(''train_mae'', PFloat (np_mean (sp_mae (rs_train r)))),
      (''val_mae'', PFloat (np_mean (sp_mae (rs_val r)))),
      (''test_mae'', PFloat (np_mean (sp_mae (rs_test r)))),
      (''train_mse'', PFloat (np_mean (sp_mse (rs_train r)))),
      (''val_mse'', PFloat (np_mean (sp_mse (rs_val r)))),
      (''test_mse'', PFloat (np_mean (sp_mse (rs_test r)))),
      (''train_mcc'', PFloat (np_mean (map (matthews_corrcoef C) (sp_cm (rs_train r))))),
      (''val_mcc'', PFloat (np_mean (map (matthews_corrcoef C) (sp_cm (rs_val r))))),
      (''test_mcc'', PFloat (np_mean (map (matthews_corrcoef C) (sp_cm (rs_test r))))),
      (''train_acc'', PFloat (np_mean (map (global_accuracy C) (sp_cm (rs_train r))))),
      (''val_acc'', PFloat (np_mean (map (global_accuracy C) (sp_cm (rs_val r))))),
      (''test_acc'', PFloat (np_mean (map (global_accuracy C) (sp_cm (rs_test r)))))]"

text \<open>One element of \<open>list_all\<close> (lines 427-432).\<close>

record result_bundle =
  bundle_dict :: pydict
  bundle_train_cm :: "confusion_matrix list"
  bundle_val_cm :: "confusion_matrix list"
  bundle_test_cm :: "confusion_matrix list"

text \<open>\<open>folder_path.name\<close>: the last component of the path.\<close>

definition path_name :: "string \<Rightarrow> string" where
  "path_name p = rev (takeWhile (\<lambda>c. c \<noteq> CHR ''/'') (rev p))"

text \<open>
  The loop over the folders found under \<open>save_path\<close>. \<open>load_model\<close> (of \<open>models\<close>) and
  \<open>load_data\<close> (of \<open>utils\<close>) are parameters; \<open>load_model\<close> may raise, which ends the call.
\<close>

fun test_folders ::
  "cm_metrics \<Rightarrow> (string \<Rightarrow> error + ('m \<times> pydict)) \<Rightarrow> ('m \<Rightarrow> 'img \<Rightarrow> (real \<times> real) list) \<Rightarrow>
     (string \<Rightarrow> 'img data) \<Rightarrow> int \<Rightarrow> bool \<Rightarrow> string list \<Rightarrow> result_bundle list \<times> 'm event list \<Rightarrow>
     error + (result_bundle list \<times> 'm event list)" where
  "test_folders C load_model fwd load_data n_runs save [] acc = Inr acc"
| "test_folders C load_model fwd load_data n_runs save (folder_path # rest) acc =
     (case load_model folder_path of
        Inl e \<Rightarrow> Inl e
      | Inr (model, dict_model) \<Rightarrow>
          (let r = test_runs fwd model (load_data folder_path) [0..<nat n_runs] no_runs;
               dm = dict_update dict_model (dict_result C r);
               evs = (if save
                      then [SaveDict dm (folder_path @ ''/'' @ path_name folder_path @ ''.dict'')]
                      else []);
               b = \<lparr>bundle_dict = dm, bundle_train_cm = sp_cm (rs_train r),
                    bundle_val_cm = sp_cm (rs_val r), bundle_test_cm = sp_cm (rs_test r)\<rparr>
           in test_folders C load_model fwd load_data n_runs save rest
                (fst acc @ [b], snd acc @ LoadData # evs)))"

text \<open>\<open>paths\<close> is \<open>list(Path(save_path).glob('*'))\<close>; the value is \<open>list_all\<close> and the effects.\<close>

definition test ::
  "cm_metrics \<Rightarrow> (string \<Rightarrow> error + ('m \<times> pydict)) \<Rightarrow> ('m \<Rightarrow> 'img \<Rightarrow> (real \<times> real) list) \<Rightarrow>
     (string \<Rightarrow> 'img data) \<Rightarrow> string list \<Rightarrow> int \<Rightarrow> bool \<Rightarrow>
     error + (result_bundle list \<times> 'm event list)" where
  "test C load_model fwd load_data paths n_runs save =
     test_folders C load_model fwd load_data n_runs save paths ([], [])"

section \<open>Properties of predict\_age\_gender\<close>

subsection \<open>The shape of the result\<close>

lemma load_images_length: "load_images ld ps = Inr ts \<Longrightarrow> length ts = length ps"
  by (induction ps arbitrary: ts) (auto split: sum.splits)

lemma load_images_total: "load_images (\<lambda>p. Inr (f p)) ps = Inr (map f ps)"
  by (induction ps) auto

lemma gender_column_length: "length (gender_column rp pred) = length pred"
  by (simp add: gender_column_def Let_def)

lemma py_slice_length:
  "0 \<le> k \<Longrightarrow> 0 \<le> b \<Longrightarrow> k + b \<le> int (length xs) \<Longrightarrow> length (py_slice xs k (k + b)) = nat b"
  by (auto simp: py_slice_def Let_def min_def max_def)

lemma predict_batches_rows:
  assumes "predict_batches ld model rp xs b ks = Inr ps"
    and "\<forall>ys. length (model ys) = length ys"
    and "0 \<le> b"
    and "\<forall>k\<in>set ks. 0 \<le> k \<and> k + b \<le> int (length xs)"
  shows "length (concat ps) = length ks * nat b"
  using assms
proof (induction ks arbitrary: ps)
  case Nil
  then show ?case by simp
next
  case (Cons k ks)
  from Cons.prems(1) obtain ts qs where
    ts: "load_images ld (py_slice xs k (k + b)) = Inr ts"
    and qs: "predict_batches ld model rp xs b ks = Inr qs"
    and ps: "ps = gender_column rp (model ts) # qs"
    by (auto simp: torch_stack_def Let_def split: sum.splits if_splits)
  have "length ts = nat b"
    using load_images_length[OF ts] py_slice_length[of k b xs] Cons.prems(3,4) by simp
  moreover have "length (concat qs) = length ks * nat b"
    using Cons.IH[OF qs Cons.prems(2,3)] Cons.prems(4) by simp
  ultimately show ?case
    using Cons.prems(2) by (simp add: ps gender_column_length)
qed

lemma py_range_batches:
  assumes "0 < b" "b \<le> n"
  shows "py_range 0 (n - b + 1) b = Inr (map (\<lambda>i. int i * b) [0..<nat (n div b)])"
  using assms by (simp add: py_range_def)

lemma batch_start_in_range:
  assumes "0 < b" "i < nat (n div b)"
  shows "int i * b + b \<le> n"
proof -
  have "int i + 1 \<le> n div b" using assms by linarith
  then have "(int i + 1) * b \<le> (n div b) * b"
    using assms(1) by (simp add: mult_right_mono)
  then have "int i * b + b \<le> b * (n div b)" by (simp add: algebra_simps)
  moreover have "b * (n div b) = n - n mod b" by (simp add: minus_mod_eq_mult_div)
  moreover have "0 \<le> n mod b" using assms(1) by simp
  ultimately show ?thesis by linarith
qed

lemma predict_age_gender_Inr:
  assumes "predict_age_gender py_int load model d imgs rp bsz = Inr res"
  shows "\<exists>v sz ks ps. dict_item d ''train_suffix'' = Inr v \<and> py_int v = Inr sz \<and>
     py_range 0 (int (length imgs) - effective_batch_size imgs bsz + 1)
        (effective_batch_size imgs bsz) = Inr ks \<and>
     predict_batches (load sz) model rp imgs (effective_batch_size imgs bsz) ks = Inr ps \<and>
     ps \<noteq> [] \<and> res = force_positive_ages (concat ps)"
  using assms
  by (auto simp: predict_age_gender_def Let_def torch_cat_def split: sum.splits if_splits)

lemma predict_age_gender_rows:
  assumes "predict_age_gender py_int load model d imgs rp bsz = Inr res"
    and "\<forall>ys. length (model ys) = length ys"
  shows "0 < effective_batch_size imgs bsz \<and>
     int (length res) =
       effective_batch_size imgs bsz * (int (length imgs) div effective_batch_size imgs bsz)"
proof -
  define b where "b = effective_batch_size imgs bsz"
  define n where "n = int (length imgs)"
  from predict_age_gender_Inr[OF assms(1)] obtain sz ks ps where
    ks: "py_range 0 (n - b + 1) b = Inr ks"
    and ps: "predict_batches (load sz) model rp imgs b ks = Inr ps"
    and ne: "ps \<noteq> []"
    and res: "res = force_positive_ages (concat ps)"
    unfolding b_def n_def by blast
  have bn: "b \<le> n" by (simp add: b_def n_def effective_batch_size_def)
  have b0: "b \<noteq> 0" using ks by (auto simp: py_range_def)
  have bpos: "0 < b"
  proof (rule ccontr)
    assume "\<not> 0 < b"
    then have neg: "b < 0" using b0 by simp
    have "n \<ge> 0" by (simp add: n_def)
    then have "(0 - (n - b + 1) - b - 1) div (- b) < 0" using neg
      by (simp add: div_neg_pos_less0)
    then have "ks = []" using ks neg by (auto simp: py_range_def)
    then show False using ps ne by simp
  qed
  have ks_eq: "ks = map (\<lambda>i. int i * b) [0..<nat (n div b)]"
    using py_range_batches[OF bpos bn] ks by simp
  have "\<forall>k\<in>set ks. 0 \<le> k \<and> k + b \<le> int (length imgs)"
    using batch_start_in_range[OF bpos] bpos by (auto simp: ks_eq n_def)
  then have "length (concat ps) = length ks * nat b"
    using predict_batches_rows[OF ps assms(2)] bpos by simp
  moreover have "0 \<le> n div b" using bpos by (simp add: n_def pos_imp_zdiv_nonneg_iff)
  ultimately have "int (length res) = b * (n div b)"
    using bpos by (simp add: res force_positive_ages_def ks_eq)
  then show ?thesis using bpos by (simp add: b_def n_def)
qed


lemma sigmoid_bounds: "0 < sigmoid x \<and> sigmoid x < 1"
proof -
  have "0 < exp (- x)" by simp
  then show ?thesis unfolding sigmoid_def by (simp add: add_pos_pos)
qed

lemma sigmoid_zero: "sigmoid 0 = 1 / 2"
  by (simp add: sigmoid_def)

lemma predict_batches_from_model:
  "predict_batches ld model rp xs b ks = Inr ps \<Longrightarrow> p \<in> set ps \<Longrightarrow>
     \<exists>ts. p = gender_column rp (model ts)"
proof (induction ks arbitrary: ps)
  case Nil
  then show ?case by simp
next
  case (Cons k ks)
  then show ?case
    by (auto simp: Let_def split: sum.splits)
qed

lemma gender_column_row:
  "q1 \<in> set (gender_column rp pred) \<Longrightarrow>
     \<exists>q\<in>set pred. q1 = (if rp then sigmoid (fst q)
                         else if sigmoid (fst q) > 1 / 2 then 1 else 0, snd q)"
  by (cases rp) (force simp: gender_column_def)+

lemma predict_age_gender_row:
  assumes "predict_age_gender py_int load model d imgs rp bsz = Inr res"
    and "r \<in> set res"
  shows "\<exists>ts. \<exists>q\<in>set (model ts).
     r = (if rp then sigmoid (fst q) else if sigmoid (fst q) > 1 / 2 then 1 else 0,
          \<bar>snd q\<bar>)"
proof -
  from predict_age_gender_Inr[OF assms(1)] obtain sz b ks ps where
    ps: "predict_batches (load sz) model rp imgs b ks = Inr ps"
    and res: "res = force_positive_ages (concat ps)"
    by blast
  from assms(2) res obtain q1 where q1: "q1 \<in> set (concat ps)" and r: "r = (fst q1, \<bar>snd q1\<bar>)"
    by (force simp: force_positive_ages_def)
  from q1 obtain p where "p \<in> set ps" and q1p: "q1 \<in> set p" by auto
  then obtain ts where p: "p = gender_column rp (model ts)"
    using predict_batches_from_model[OF ps] by blast
  from gender_column_row[OF q1p[unfolded p]] obtain q where
    "q \<in> set (model ts)"
    "q1 = (if rp then sigmoid (fst q) else if sigmoid (fst q) > 1 / 2 then 1 else 0, snd q)"
    by blast
  then show ?thesis using r by auto
qed

text \<open>
  Claim C1. The docstring promises a tensor of shape \<open>(len(list_images), 2)\<close>. The range
  of batch starts is \<open>range(0, N - batch_size + 1, batch_size)\<close>, so the images after
  the last full batch are never read: by \<open>predict_age_gender_rows\<close> the result has
  \<open>batch_size * (N div batch_size)\<close> rows. With three images and a batch size of two the
  call returns two rows, not three.
\<close>

theorem predict_age_gender_drops_partial_batch:
  "predict_age_gender (\<lambda>v. Inr 400) (\<lambda>sz p. Inr p) (map (\<lambda>p. (0, 0)))
     [(''train_suffix'', PStr ''400'')] [''a.jpg'', ''b.jpg'', ''c.jpg''] True 2
   = Inr [(1 / 2, 0), (1 / 2, 0)]"
  by (simp add: predict_age_gender_def effective_batch_size_def dict_item_def py_range_def
      py_slice_def torch_stack_def torch_cat_def gender_column_def force_positive_ages_def
      sigmoid_zero)

text \<open>
  Claim C5. Whenever \<open>predict_age_gender\<close> returns, every value of column 1 is
  non-negative, because line 490 maps each raw age to the square root of its square:
  each value is the absolute value of an age the model answered for some batch (so a
  raw \<open>-3\<close> becomes \<open>3\<close>, not \<open>0\<close>).
\<close>

theorem predict_age_gender_age_nonneg:
  assumes "predict_age_gender py_int load model d imgs rp bsz = Inr res"
  shows "\<forall>r\<in>set res. 0 \<le> snd r \<and> (\<exists>ts. \<exists>q\<in>set (model ts). snd r = \<bar>snd q\<bar>)"
proof
  fix r assume "r \<in> set res"
  from predict_age_gender_row[OF assms this] obtain ts q where
    "q \<in> set (model ts)" "snd r = \<bar>snd q\<bar>"
    by auto
  then show "0 \<le> snd r \<and> (\<exists>ts. \<exists>q\<in>set (model ts). snd r = \<bar>snd q\<bar>)"
    by auto
qed

text \<open>A stub model that answers a raw age of \<open>-3\<close> for the one image it is given.\<close>

theorem predict_age_gender_age_nonneg_witness:
  "predict_age_gender (\<lambda>v. Inr 400) (\<lambda>sz p. Inr p) (map (\<lambda>p. (0, - 3)))
     [(''train_suffix'', PStr ''400'')] [''a.jpg''] True 32 = Inr [(1 / 2, 3)]
   \<and> 0 \<le> snd (1 / 2 :: real, 3 :: real)"
proof -
  have h: "predict_age_gender (\<lambda>v. Inr 400) (\<lambda>sz p. Inr p) (map (\<lambda>p. (0, - 3)))
     [(''train_suffix'', PStr ''400'')] [''a.jpg''] True 32 = Inr [(1 / 2, 3)]"
    by (simp add: predict_age_gender_def effective_batch_size_def dict_item_def py_range_def
        py_slice_def torch_stack_def torch_cat_def gender_column_def force_positive_ages_def
        sigmoid_zero)
  show ?thesis using h predict_age_gender_age_nonneg[OF h] by simp
qed

text \<open>
  Claim C6. Whenever \<open>predict_age_gender\<close> returns, every value of column 0 lies in
  [0, 1] when \<open>return_pr\<close> is true, where it is the sigmoid of a logit the model
  answered, and is 0 or 1 when \<open>return_pr\<close> is false, where it is that sigmoid
  thresholded at 0.5.
\<close>

theorem predict_age_gender_gender_range:
  assumes "predict_age_gender py_int load model d imgs rp bsz = Inr res"
  shows "(rp \<longrightarrow> (\<forall>r\<in>set res. 0 \<le> fst r \<and> fst r \<le> 1 \<and>
            (\<exists>ts. \<exists>q\<in>set (model ts). fst r = sigmoid (fst q)))) \<and>
     (\<not> rp \<longrightarrow> (\<forall>r\<in>set res. (fst r = 0 \<or> fst r = 1) \<and>
            (\<exists>ts. \<exists>q\<in>set (model ts). fst r = (if sigmoid (fst q) > 1 / 2 then 1 else 0))))"
proof (cases rp)
  case True
  have "0 \<le> fst r \<and> fst r \<le> 1 \<and> (\<exists>ts. \<exists>q\<in>set (model ts). fst r = sigmoid (fst q))"
    if "r \<in> set res" for r
  proof -
    from predict_age_gender_row[OF assms that] True obtain ts q where
      q: "q \<in> set (model ts)" "fst r = sigmoid (fst q)"
      by auto
    then show ?thesis using sigmoid_bounds[of "fst q"] by force
  qed
  then show ?thesis using True by blast
next
  case False
  have "(fst r = 0 \<or> fst r = 1) \<and>
      (\<exists>ts. \<exists>q\<in>set (model ts). fst r = (if sigmoid (fst q) > 1 / 2 then 1 else 0))"
    if "r \<in> set res" for r
  proof -
    from predict_age_gender_row[OF assms that] False obtain ts q where
      q: "q \<in> set (model ts)" "fst r = (if sigmoid (fst q) > 1 / 2 then 1 else 0)"
      by auto
    then show ?thesis by force
  qed
  then show ?thesis using False by blast
qed

text \<open>The same stub model, once with probabilities and once with labels.\<close>

theorem predict_age_gender_gender_range_witness:
  "predict_age_gender (\<lambda>v. Inr 400) (\<lambda>sz p. Inr p) (map (\<lambda>p. (0, - 3)))
     [(''train_suffix'', PStr ''400'')] [''a.jpg''] True 32 = Inr [(1 / 2, 3)]
   \<and> 0 \<le> fst (1 / 2 :: real, 3 :: real) \<and> fst (1 / 2 :: real, 3 :: real) \<le> 1
   \<and> predict_age_gender (\<lambda>v. Inr 400) (\<lambda>sz p. Inr p) (map (\<lambda>p. (0, - 3)))
     [(''train_suffix'', PStr ''400'')] [''a.jpg''] False 32 = Inr [(0, 3)]
   \<and> (fst (0 :: real, 3 :: real) = 0 \<or> fst (0 :: real, 3 :: real) = 1)"
proof -
  have h1: "predict_age_gender (\<lambda>v. Inr 400) (\<lambda>sz p. Inr p) (map (\<lambda>p. (0, - 3)))
     [(''train_suffix'', PStr ''400'')] [''a.jpg''] True 32 = Inr [(1 / 2, 3)]"
    by (simp add: predict_age_gender_def effective_batch_size_def dict_item_def py_range_def
        py_slice_def torch_stack_def torch_cat_def gender_column_def force_positive_ages_def
        sigmoid_zero)
  have h2: "predict_age_gender (\<lambda>v. Inr 400) (\<lambda>sz p. Inr p) (map (\<lambda>p. (0, - 3)))
     [(''train_suffix'', PStr ''400'')] [''a.jpg''] False 32 = Inr [(0, 3)]"
    by (simp add: predict_age_gender_def effective_batch_size_def dict_item_def py_range_def
        py_slice_def torch_stack_def torch_cat_def gender_column_def force_positive_ages_def
        sigmoid_zero)
  show ?thesis
    using h1 h2 predict_age_gender_gender_range[OF h1] predict_age_gender_gender_range[OF h2]
    by simp
qed

text \<open>
  Claim C10. On an empty list of paths \<open>predict_age_gender\<close> never returns a tensor:
  every call ends in an exception. For a non-negative \<open>batch_size\<close> the effective batch
  size is zero, and once the image size has been read from the record the exception is
  the ValueError of a range with a zero step.
\<close>

theorem predict_age_gender_empty:
  "(\<exists>e. predict_age_gender py_int load model d [] rp bsz = Inl e) \<and>
   (0 \<le> bsz \<longrightarrow> effective_batch_size [] bsz = 0) \<and>
   (0 \<le> bsz \<longrightarrow> dict_item d ''train_suffix'' = Inr v \<longrightarrow> py_int v = Inr sz \<longrightarrow>
      predict_age_gender py_int load model d [] rp bsz = Inl ValueError)"
proof -
  have "\<exists>e. predict_age_gender py_int load model d [] rp bsz = Inl e"
  proof (cases "predict_age_gender py_int load model d [] rp bsz")
    case (Inl e)
    then show ?thesis by blast
  next
    case (Inr res)
    from predict_age_gender_Inr[OF Inr] obtain sz ks ps where
      ks: "py_range 0 (int (length ([] :: string list)) - effective_batch_size [] bsz + 1)
             (effective_batch_size [] bsz) = Inr ks"
      and ps: "predict_batches (load sz) model rp [] (effective_batch_size [] bsz) ks = Inr ps"
      and ne: "ps \<noteq> []"
      by blast
    have "ks = []" using ks
      by (auto simp: py_range_def effective_batch_size_def div_nonneg_neg_le0 split: if_splits)
    then show ?thesis using ps ne by simp
  qed
  moreover have "0 \<le> bsz \<longrightarrow> effective_batch_size [] bsz = 0"
    by (simp add: effective_batch_size_def)
  moreover have "predict_age_gender py_int load model d [] rp bsz = Inl ValueError"
    if "0 \<le> bsz" "dict_item d ''train_suffix'' = Inr v" "py_int v = Inr sz"
    using that by (simp add: predict_age_gender_def effective_batch_size_def py_range_def)
  ultimately show ?thesis by blast
qed

text \<open>The default batch size of 32 on the empty list.\<close>

theorem predict_age_gender_empty_witness:
  "(0::int) \<le> 32 \<and> dict_item [(''train_suffix'', PStr ''400'')] ''train_suffix'' = Inr (PStr ''400'')
   \<and> effective_batch_size [] 32 = 0
   \<and> predict_age_gender (\<lambda>v. Inr 400) (\<lambda>sz p. Inr p) (map (\<lambda>p. (0, 0)))
        [(''train_suffix'', PStr ''400'')] [] True 32 = Inl ValueError"
  using predict_age_gender_empty[of "\<lambda>v. Inr 400" "\<lambda>sz p. Inr p" "map (\<lambda>p. (0, 0))"
      "[(''train_suffix'', PStr ''400'')]" True 32 "PStr ''400''" 400]
  by (simp add: dict_item_def)

section \<open>Properties of train\<close>

subsection \<open>is\_better, checkpoints and the configuration check\<close>

lemma dict_get_set: "dict_get (dict_set d k v) k' = (if k' = k then Some v else dict_get d k')"
  by (induction d) auto

lemma compare_best_absent:
  "best = None \<or> best = Some PNone \<Longrightarrow> compare_best cmp met best = Inr (Some met, False)"
  by (auto simp: compare_best_def)

lemma compare_best_number:
  "py_number v = Some b \<Longrightarrow> compare_best cmp met (Some v) = Inr (Some met, cmp met b)"
  by (cases v) (auto simp: compare_best_def)

lemma select_metric_min_loss:
  "select_metric C ''min_loss'' d m =
     compare_best (\<le>) (mean_train_loss m) (dict_get d ''train_loss'')"
  by (simp add: select_metric_def)

lemma select_metric_min_mse:
  "select_metric C ''min_mse'' d m =
     compare_best (\<le>) (mean_val_mse_age m) (dict_get d ''val_mse_age'')"
  by (simp add: select_metric_def)

lemma select_metric_max_acc:
  "select_metric C ''max_acc'' d m =
     compare_best (\<ge>) (global_accuracy C (cm_train m)) (dict_get d ''train_acc'')"
  by (simp add: select_metric_def)

lemma select_metric_max_val_acc:
  "select_metric C ''max_val_acc'' d m =
     compare_best (\<ge>) (global_accuracy C (cm_val m)) (dict_get d ''val_acc'')"
  by (simp add: select_metric_def)

lemma select_metric_max_val_mcc:
  "select_metric C ''max_val_mcc'' d m =
     compare_best (\<ge>) (matthews_corrcoef C (cm_val m)) (dict_get d ''val_mcc'')"
  by (simp add: select_metric_def)

lemma select_metric_other:
  "mode \<notin> set [''min_loss'', ''min_mse'', ''max_acc'', ''max_val_acc'', ''max_val_mcc''] \<Longrightarrow>
     select_metric C mode d m = Inr (None, False)"
  by (simp add: select_metric_def)


text \<open>
  Claim C2. In every epoch, for each of the five scheduler modes, \<open>is_better\<close> is false
  when the record holds no value (no entry, or None) under the key of the selected
  metric, and otherwise, for a stored number \<open>b\<close>, it is \<open>met \<le> b\<close> for the minimised
  modes \<open>min_loss\<close> and \<open>min_mse\<close> and \<open>met \<ge> b\<close> for the maximised modes \<open>max_acc\<close>,
  \<open>max_val_acc\<close> and \<open>max_val_mcc\<close>. Any other mode leaves it false.
\<close>

theorem select_metric_is_better:
  "(dict_get d ''train_loss'' = None \<or> dict_get d ''train_loss'' = Some PNone \<longrightarrow>
      select_metric C ''min_loss'' d m = Inr (Some (mean_train_loss m), False))
   \<and> (dict_get d ''train_loss'' = Some v \<longrightarrow> py_number v = Some b \<longrightarrow>
      select_metric C ''min_loss'' d m = Inr (Some (mean_train_loss m), mean_train_loss m \<le> b))
   \<and> (dict_get d ''val_mse_age'' = None \<or> dict_get d ''val_mse_age'' = Some PNone \<longrightarrow>
      select_metric C ''min_mse'' d m = Inr (Some (mean_val_mse_age m), False))
   \<and> (dict_get d ''val_mse_age'' = Some v \<longrightarrow> py_number v = Some b \<longrightarrow>
      select_metric C ''min_mse'' d m = Inr (Some (mean_val_mse_age m), mean_val_mse_age m \<le> b))
   \<and> (dict_get d ''train_acc'' = None \<or> dict_get d ''train_acc'' = Some PNone \<longrightarrow>
      select_metric C ''max_acc'' d m = Inr (Some (global_accuracy C (cm_train m)), False))
   \<and> (dict_get d ''train_acc'' = Some v \<longrightarrow> py_number v = Some b \<longrightarrow>
      select_metric C ''max_acc'' d m =
        Inr (Some (global_accuracy C (cm_train m)), global_accuracy C (cm_train m) \<ge> b))
   \<and> (dict_get d ''val_acc'' = None \<or> dict_get d ''val_acc'' = Some PNone \<longrightarrow>
      select_metric C ''max_val_acc'' d m = Inr (Some (global_accuracy C (cm_val m)), False))
   \<and> (dict_get d ''val_acc'' = Some v \<longrightarrow> py_number v = Some b \<longrightarrow>
      select_metric C ''max_val_acc'' d m =
        Inr (Some (global_accuracy C (cm_val m)), global_accuracy C (cm_val m) \<ge> b))
   \<and> (dict_get d ''val_mcc'' = None \<or> dict_get d ''val_mcc'' = Some PNone \<longrightarrow>
      select_metric C ''max_val_mcc'' d m = Inr (Some (matthews_corrcoef C (cm_val m)), False))
   \<and> (dict_get d ''val_mcc'' = Some v \<longrightarrow> py_number v = Some b \<longrightarrow>
      select_metric C ''max_val_mcc'' d m =
        Inr (Some (matthews_corrcoef C (cm_val m)), matthews_corrcoef C (cm_val m) \<ge> b))
   \<and> (mode \<notin> set [''min_loss'', ''min_mse'', ''max_acc'', ''max_val_acc'', ''max_val_mcc''] \<longrightarrow>
      select_metric C mode d m = Inr (None, False))"
  unfolding select_metric_min_loss select_metric_min_mse select_metric_max_acc
    select_metric_max_val_acc select_metric_max_val_mcc
  using select_metric_other[of mode C d m]
  by (simp add: compare_best_absent compare_best_number)

text \<open>No stored value; a stored 2 against a metric of 1, minimised and maximised.\<close>

theorem select_metric_is_better_witness:
  "select_metric
      \<lparr>global_accuracy = (\<lambda>cm. 1), average_accuracy = (\<lambda>cm. 1), matthews_corrcoef = (\<lambda>cm. 1),
       class_accuracy = (\<lambda>cm. [])\<rparr>
      ''min_mse'' []
      \<lparr>mean_train_loss = 1, mean_train_loss_gender = 1, mean_train_loss_age = 1,
       mean_val_mse_age = 1, cm_train = [], cm_val = []\<rparr> = Inr (Some 1, False)
   \<and> select_metric
      \<lparr>global_accuracy = (\<lambda>cm. 1), average_accuracy = (\<lambda>cm. 1), matthews_corrcoef = (\<lambda>cm. 1),
       class_accuracy = (\<lambda>cm. [])\<rparr>
      ''min_mse'' [(''val_mse_age'', PFloat 2)]
      \<lparr>mean_train_loss = 1, mean_train_loss_gender = 1, mean_train_loss_age = 1,
       mean_val_mse_age = 1, cm_train = [], cm_val = []\<rparr> = Inr (Some 1, True)
   \<and> select_metric
      \<lparr>global_accuracy = (\<lambda>cm. 1), average_accuracy = (\<lambda>cm. 1), matthews_corrcoef = (\<lambda>cm. 1),
       class_accuracy = (\<lambda>cm. [])\<rparr>
      ''max_val_acc'' [(''val_acc'', PFloat 2)]
      \<lparr>mean_train_loss = 1, mean_train_loss_gender = 1, mean_train_loss_age = 1,
       mean_val_mse_age = 1, cm_train = [], cm_val = []\<rparr> = Inr (Some 1, False)"
  using
    select_metric_is_better[where d = "[]" and m = "\<lparr>mean_train_loss = 1,
       mean_train_loss_gender = 1, mean_train_loss_age = 1,
       mean_val_mse_age = 1, cm_train = [], cm_val = []\<rparr>"
      and C = "\<lparr>global_accuracy = (\<lambda>cm. 1), average_accuracy = (\<lambda>cm. 1),
       matthews_corrcoef = (\<lambda>cm. 1), class_accuracy = (\<lambda>cm. [])\<rparr>"]
    select_metric_is_better[where d = "[(''val_mse_age'', PFloat 2)]" and v = "PFloat 2" and b = 2
      and m = "\<lparr>mean_train_loss = 1,
       mean_train_loss_gender = 1, mean_train_loss_age = 1,
       mean_val_mse_age = 1, cm_train = [], cm_val = []\<rparr>"
      and C = "\<lparr>global_accuracy = (\<lambda>cm. 1), average_accuracy = (\<lambda>cm. 1),
       matthews_corrcoef = (\<lambda>cm. 1), class_accuracy = (\<lambda>cm. [])\<rparr>"]
    select_metric_is_better[where d = "[(''val_acc'', PFloat 2)]" and v = "PFloat 2" and b = 2
      and m = "\<lparr>mean_train_loss = 1,
       mean_train_loss_gender = 1, mean_train_loss_age = 1,
       mean_val_mse_age = 1, cm_train = [], cm_val = []\<rparr>"
      and C = "\<lparr>global_accuracy = (\<lambda>cm. 1), average_accuracy = (\<lambda>cm. 1),
       matthews_corrcoef = (\<lambda>cm. 1), class_accuracy = (\<lambda>cm. [])\<rparr>"]
  by simp

lemma str_nat_nonempty: "str_nat n \<noteq> []"
  by (subst str_nat.simps) simp

text \<open>
  Claim C3. For a non-zero \<open>steps_save\<close> (a zero one makes \<open>epoch % steps_save\<close> raise),
  \<open>save_model\<close> is called at the end of an epoch exactly when
  \<open>epoch mod steps_save = steps_save - 1\<close> or \<open>is_better\<close>. When \<open>is_better\<close> holds the
  name is the canonical one, derived from the values of the configuration record alone;
  a periodic save that is no improvement appends \<open>_\<close> and the number \<open>epoch + 1\<close>,
  which makes the name differ from the canonical one.
\<close>

theorem save_checkpoint_when_and_name:
  assumes "steps_save a \<noteq> 0"
  shows "(is_better \<longrightarrow>
       save_checkpoint B C a nd s epoch is_better m dm =
         Inr (set_metrics C dm epoch m,
              [SaveModel s (save_path a) (name_path B nd) (set_metrics C dm epoch m)]))
   \<and> (\<not> is_better \<and> epoch mod steps_save a = steps_save a - 1 \<longrightarrow>
       save_checkpoint B C a nd s epoch is_better m dm =
         Inr (dm, [SaveModel s (save_path a) (name_path B nd @ ''_'' @ str_int (epoch + 1))
                     (set_metrics C dm epoch m)])
       \<and> name_path B nd @ ''_'' @ str_int (epoch + 1) \<noteq> name_path B nd)
   \<and> (\<not> is_better \<and> epoch mod steps_save a \<noteq> steps_save a - 1 \<longrightarrow>
       save_checkpoint B C a nd s epoch is_better m dm = Inr (dm, []))"
  using assms by (simp add: save_checkpoint_def Let_def)

text \<open>Epoch index 1 with \<open>steps_save = 2\<close> and no improvement: the name ends in \<open>_2\<close>.\<close>

theorem save_checkpoint_when_and_name_witness:
  "steps_save \<lparr>log_dir = ''logs'', save_path = ''saved'', lr = 1, optimizer_name = ''adamw'',
       n_epochs = 4, batch_size = 16, scheduler_mode = ''min_mse'', steps_save = 2,
       loss_age_weight = 1, scheduler_patience = 10, suffix = ''1''\<rparr> \<noteq> 0
   \<and> (1 :: int) mod 2 = 2 - 1
   \<and> save_checkpoint \<lparr>py_str_dict = (\<lambda>d. ''{}''), py_str_list = (\<lambda>vs. ''[3, 2]'')\<rparr>
       \<lparr>global_accuracy = (\<lambda>cm. 1), average_accuracy = (\<lambda>cm. 1), matthews_corrcoef = (\<lambda>cm. 1),
        class_accuracy = (\<lambda>cm. [])\<rparr>
       \<lparr>log_dir = ''logs'', save_path = ''saved'', lr = 1, optimizer_name = ''adamw'',
        n_epochs = 4, batch_size = 16, scheduler_mode = ''min_mse'', steps_save = 2,
        loss_age_weight = 1, scheduler_patience = 10, suffix = ''1''\<rparr>
       [(''in_channels'', PInt 3), (''out_channels'', PInt 2)] () 1 False
       \<lparr>mean_train_loss = 1, mean_train_loss_gender = 1, mean_train_loss_age = 1,
        mean_val_mse_age = 1, cm_train = [], cm_val = []\<rparr>
       [(''in_channels'', PInt 3), (''out_channels'', PInt 2)]
     = Inr ([(''in_channels'', PInt 3), (''out_channels'', PInt 2)],
        [SaveModel () ''saved'' ''3_2_2''
         [(''in_channels'', PInt 3), (''out_channels'', PInt 2),
          (''epoch'', PInt 2), (''train_loss'', PFloat 1), (''val_mse_age'', PFloat 1),
          (''train_acc'', PFloat 1), (''val_acc'', PFloat 1), (''val_mcc'', PFloat 1)]])"
  using save_checkpoint_when_and_name[where a = "\<lparr>log_dir = ''logs'', save_path = ''saved'',
        lr = 1, optimizer_name = ''adamw'',
        n_epochs = 4, batch_size = 16, scheduler_mode = ''min_mse'', steps_save = 2,
        loss_age_weight = 1, scheduler_patience = 10, suffix = ''1''\<rparr>"
      and B = "\<lparr>py_str_dict = (\<lambda>d. ''{}''), py_str_list = (\<lambda>vs. ''[3, 2]'')\<rparr>"
      and C = "\<lparr>global_accuracy = (\<lambda>cm. 1), average_accuracy = (\<lambda>cm. 1),
        matthews_corrcoef = (\<lambda>cm. 1), class_accuracy = (\<lambda>cm. [])\<rparr>"
      and nd = "[(''in_channels'', PInt 3), (''out_channels'', PInt 2)]" and s = "()"
      and epoch = 1 and is_better = False
      and dm = "[(''in_channels'', PInt 3), (''out_channels'', PInt 2)]"
      and m = "\<lparr>mean_train_loss = 1, mean_train_loss_gender = 1, mean_train_loss_age = 1,
        mean_val_mse_age = 1, cm_train = [], cm_val = []\<rparr>"]
  by (simp add: name_path_def py_slice_def replace_char_def str_int_def str_nat.simps
      digit_char_def set_metrics_def)

lemma set_metrics_written:
  "map (dict_get (set_metrics C dm epoch m))
       [''epoch'', ''train_loss'', ''val_mse_age'', ''train_acc'', ''val_acc'', ''val_mcc'']
     = [Some (PInt (epoch + 1)), Some (PFloat (mean_train_loss m)),
        Some (PFloat (mean_val_mse_age m)), Some (PFloat (global_accuracy C (cm_train m))),
        Some (PFloat (global_accuracy C (cm_val m))),
        Some (PFloat (matthews_corrcoef C (cm_val m)))]"
  by (simp add: set_metrics_def dict_get_set)

lemma set_metrics_frame:
  "k \<notin> set [''epoch'', ''train_loss'', ''val_mse_age'', ''train_acc'', ''val_acc'', ''val_mcc'']
     \<Longrightarrow> dict_get (set_metrics C dm epoch m) k = dict_get dm k"
  by (simp add: set_metrics_def dict_get_set)

text \<open>
  Claim C8. The dictionary that is saved carries the epoch number and the five metrics
  and agrees with the record on every other key. When \<open>is_better\<close> is false it is a copy:
  the caller's record is the same after the block as before. When \<open>is_better\<close> is true
  the record itself is the dictionary written to.
\<close>

theorem save_checkpoint_record:
  assumes "save_checkpoint B C a nd s epoch is_better m dm = Inr (dm1, evs)"
  shows "(\<not> is_better \<longrightarrow> dm1 = dm)
   \<and> (is_better \<longrightarrow> dm1 = set_metrics C dm epoch m)
   \<and> (\<forall>e\<in>set evs. \<exists>np. e = SaveModel s (save_path a) np (set_metrics C dm epoch m))
   \<and> map (dict_get (set_metrics C dm epoch m))
       [''epoch'', ''train_loss'', ''val_mse_age'', ''train_acc'', ''val_acc'', ''val_mcc'']
     = [Some (PInt (epoch + 1)), Some (PFloat (mean_train_loss m)),
        Some (PFloat (mean_val_mse_age m)), Some (PFloat (global_accuracy C (cm_train m))),
        Some (PFloat (global_accuracy C (cm_val m))),
        Some (PFloat (matthews_corrcoef C (cm_val m)))]
   \<and> (\<forall>k. k \<notin> set [''epoch'', ''train_loss'', ''val_mse_age'', ''train_acc'', ''val_acc'',
                      ''val_mcc'']
        \<longrightarrow> dict_get (set_metrics C dm epoch m) k = dict_get dm k)"
proof -
  have "(\<not> is_better \<longrightarrow> dm1 = dm) \<and> (is_better \<longrightarrow> dm1 = set_metrics C dm epoch m)
     \<and> (\<forall>e\<in>set evs. \<exists>np. e = SaveModel s (save_path a) np (set_metrics C dm epoch m))"
    using assms by (auto simp: save_checkpoint_def Let_def split: if_splits)
  then show ?thesis
    using set_metrics_written[of C dm epoch m] set_metrics_frame[of _ C dm epoch m] by blast
qed

text \<open>A periodic save: the stored best of 5 stays in the record, the copy holds 1.\<close>

theorem save_checkpoint_record_witness:
  "save_checkpoint \<lparr>py_str_dict = (\<lambda>d. ''{}''), py_str_list = (\<lambda>vs. ''[3, 2]'')\<rparr>
       \<lparr>global_accuracy = (\<lambda>cm. 1), average_accuracy = (\<lambda>cm. 1), matthews_corrcoef = (\<lambda>cm. 1),
        class_accuracy = (\<lambda>cm. [])\<rparr>
       \<lparr>log_dir = ''logs'', save_path = ''saved'', lr = 1, optimizer_name = ''adamw'',
        n_epochs = 4, batch_size = 16, scheduler_mode = ''min_mse'', steps_save = 2,
        loss_age_weight = 1, scheduler_patience = 10, suffix = ''1''\<rparr>
       [(''in_channels'', PInt 3), (''out_channels'', PInt 2)] () 1 False
       \<lparr>mean_train_loss = 1, mean_train_loss_gender = 1, mean_train_loss_age = 1,
        mean_val_mse_age = 1, cm_train = [], cm_val = []\<rparr>
       [(''in_channels'', PInt 3), (''out_channels'', PInt 2), (''val_mse_age'', PFloat 5)]
     = Inr ([(''in_channels'', PInt 3), (''out_channels'', PInt 2), (''val_mse_age'', PFloat 5)],
        [SaveModel () ''saved'' ''3_2_2''
         [(''in_channels'', PInt 3), (''out_channels'', PInt 2), (''val_mse_age'', PFloat 1),
          (''epoch'', PInt 2), (''train_loss'', PFloat 1),
          (''train_acc'', PFloat 1), (''val_acc'', PFloat 1), (''val_mcc'', PFloat 1)]])"
proof -
  have h: "save_checkpoint \<lparr>py_str_dict = (\<lambda>d. ''{}''), py_str_list = (\<lambda>vs. ''[3, 2]'')\<rparr>
       \<lparr>global_accuracy = (\<lambda>cm. 1), average_accuracy = (\<lambda>cm. 1), matthews_corrcoef = (\<lambda>cm. 1),
        class_accuracy = (\<lambda>cm. [])\<rparr>
       \<lparr>log_dir = ''logs'', save_path = ''saved'', lr = 1, optimizer_name = ''adamw'',
        n_epochs = 4, batch_size = 16, scheduler_mode = ''min_mse'', steps_save = 2,
        loss_age_weight = 1, scheduler_patience = 10, suffix = ''1''\<rparr>
       [(''in_channels'', PInt 3), (''out_channels'', PInt 2)] () 1 False
       \<lparr>mean_train_loss = 1, mean_train_loss_gender = 1, mean_train_loss_age = 1,
        mean_val_mse_age = 1, cm_train = [], cm_val = []\<rparr>
       [(''in_channels'', PInt 3), (''out_channels'', PInt 2), (''val_mse_age'', PFloat 5)]
     = Inr ([(''in_channels'', PInt 3), (''out_channels'', PInt 2), (''val_mse_age'', PFloat 5)],
        [SaveModel () ''saved'' ''3_2_2''
         [(''in_channels'', PInt 3), (''out_channels'', PInt 2), (''val_mse_age'', PFloat 1),
          (''epoch'', PInt 2), (''train_loss'', PFloat 1),
          (''train_acc'', PFloat 1), (''val_acc'', PFloat 1), (''val_mcc'', PFloat 1)]])"
    by (simp add: save_checkpoint_def name_path_def py_slice_def replace_char_def str_int_def
        str_nat.simps digit_char_def set_metrics_def)
  show ?thesis using h save_checkpoint_record[OF h] by simp
qed

lemma select_optimizer_unknown:
  "name \<notin> set [''sgd'', ''adam'', ''adamw''] \<Longrightarrow>
     select_optimizer name = Inl (Exception ''Optimizer not configured'')"
  by (simp add: select_optimizer_def)

lemma select_scheduler_unknown:
  "mode \<notin> set [''min_loss'', ''min_mse'', ''max_acc'', ''max_val_acc'', ''max_val_mcc''] \<Longrightarrow>
     select_scheduler mode = Inl (Exception ''Optimizer not configured'')"
  by (simp add: select_scheduler_def)

text \<open>
  Claim C4, as amended. With an optimizer name outside sgd, adam, adamw, or a scheduler
  mode outside the five, \<open>train\<close> ends in the exception before any batch is trained on
  and before any checkpoint is saved. By then the log writer has been created, the data
  loaded, and the caller's record updated with the six \<open>train_\<close> parameters.
\<close>

theorem train_unknown_name:
  assumes "optimizer_name a \<notin> set [''sgd'', ''adam'', ''adamw''] \<or>
     scheduler_mode a \<notin> set [''min_loss'', ''min_mse'', ''max_acc'', ''max_val_acc'', ''max_val_mcc'']"
  shows "train B C L D a dict_model =
     \<lparr>raised = Some (Exception ''Optimizer not configured''),
      final_dict_model = dict_update dict_model (dict_param a),
      all_effects = [SummaryWriter (log_dir a) (name_model B (name_dict a dict_model)), LoadData]\<rparr>"
proof (cases "optimizer_name a \<notin> set [''sgd'', ''adam'', ''adamw'']")
  case True
  then show ?thesis
    using select_optimizer_unknown[OF True] by (simp add: train_def Let_def)
next
  case False
  then have "select_scheduler (scheduler_mode a) = Inl (Exception ''Optimizer not configured'')"
    using assms select_scheduler_unknown by blast
  moreover have "e = Exception ''Optimizer not configured''"
    if "select_optimizer (optimizer_name a) = Inl e" for e
    using that by (simp add: select_optimizer_def split: if_splits)
  ultimately show ?thesis
    by (simp add: train_def Let_def split: sum.splits)
qed

text \<open>
  Claim C4 as stated fails: with \<open>optimizer_name = rmsprop\<close> and an empty record the call
  raises, and leaves six entries in the caller's record and a log writer behind.
\<close>

theorem train_unknown_optimizer_mutates_record:
  "raised
     (train \<lparr>py_str_dict = (\<lambda>d. ''{}''), py_str_list = (\<lambda>vs. ''[]'')\<rparr>
       \<lparr>global_accuracy = (\<lambda>cm. 1), average_accuracy = (\<lambda>cm. 1), matthews_corrcoef = (\<lambda>cm. 1),
        class_accuracy = (\<lambda>cm. [])\<rparr>
       \<lparr>init_optim = (\<lambda>opt rate pm patience. ()), forward = (\<lambda>training s img. [(0, 0)]),
        backward_step = (\<lambda>s b loss. ()), scheduler_step = (\<lambda>s met. ()),
        current_lr = (\<lambda>s. 0)\<rparr>
       \<lparr>loader_train = (\<lambda>k. [((), [1], [1])]), loader_valid = (\<lambda>k. [((), [1], [1])]),
        loader_test = (\<lambda>k. [((), [1], [1])])\<rparr>
       \<lparr>log_dir = ''logs'', save_path = ''saved'', lr = 1, optimizer_name = ''rmsprop'',
        n_epochs = 4, batch_size = 16, scheduler_mode = ''min_mse'', steps_save = 1,
        loss_age_weight = 1, scheduler_patience = 10, suffix = ''1''\<rparr>
       [])
     = Some (Exception ''Optimizer not configured'')
   \<and> final_dict_model
     (train \<lparr>py_str_dict = (\<lambda>d. ''{}''), py_str_list = (\<lambda>vs. ''[]'')\<rparr>
       \<lparr>global_accuracy = (\<lambda>cm. 1), average_accuracy = (\<lambda>cm. 1), matthews_corrcoef = (\<lambda>cm. 1),
        class_accuracy = (\<lambda>cm. [])\<rparr>
       \<lparr>init_optim = (\<lambda>opt rate pm patience. ()), forward = (\<lambda>training s img. [(0, 0)]),
        backward_step = (\<lambda>s b loss. ()), scheduler_step = (\<lambda>s met. ()),
        current_lr = (\<lambda>s. 0)\<rparr>
       \<lparr>loader_train = (\<lambda>k. [((), [1], [1])]), loader_valid = (\<lambda>k. [((), [1], [1])]),
        loader_test = (\<lambda>k. [((), [1], [1])])\<rparr>
       \<lparr>log_dir = ''logs'', save_path = ''saved'', lr = 1, optimizer_name = ''rmsprop'',
        n_epochs = 4, batch_size = 16, scheduler_mode = ''min_mse'', steps_save = 1,
        loss_age_weight = 1, scheduler_patience = 10, suffix = ''1''\<rparr>
       [])
     = [(''train_lr'', PFloat 1), (''train_optimizer_name'', PStr ''rmsprop''),
        (''train_batch_size'', PInt 16), (''train_scheduler_mode'', PStr ''min_mse''),
        (''train_loss_age_weight'', PFloat 1), (''train_suffix'', PStr ''1'')]
   \<and> (\<exists>name. all_effects
     (train \<lparr>py_str_dict = (\<lambda>d. ''{}''), py_str_list = (\<lambda>vs. ''[]'')\<rparr>
       \<lparr>global_accuracy = (\<lambda>cm. 1), average_accuracy = (\<lambda>cm. 1), matthews_corrcoef = (\<lambda>cm. 1),
        class_accuracy = (\<lambda>cm. [])\<rparr>
       \<lparr>init_optim = (\<lambda>opt rate pm patience. ()), forward = (\<lambda>training s img. [(0, 0)]),
        backward_step = (\<lambda>s b loss. ()), scheduler_step = (\<lambda>s met. ()),
        current_lr = (\<lambda>s. 0)\<rparr>
       \<lparr>loader_train = (\<lambda>k. [((), [1], [1])]), loader_valid = (\<lambda>k. [((), [1], [1])]),
        loader_test = (\<lambda>k. [((), [1], [1])])\<rparr>
       \<lparr>log_dir = ''logs'', save_path = ''saved'', lr = 1, optimizer_name = ''rmsprop'',
        n_epochs = 4, batch_size = 16, scheduler_mode = ''min_mse'', steps_save = 1,
        loss_age_weight = 1, scheduler_patience = 10, suffix = ''1''\<rparr>
       [])
     = [SummaryWriter ''logs'' name, LoadData])"
  by (simp add: train_def select_optimizer_def dict_param_def name_dict_def)

text \<open>The scheduler mode \<open>max_foo\<close> with a known optimizer.\<close>

theorem train_unknown_name_witness:
  "optimizer_name \<lparr>log_dir = ''logs'', save_path = ''saved'', lr = 1, optimizer_name = ''adamw'',
        n_epochs = 4, batch_size = 16, scheduler_mode = ''max_foo'', steps_save = 1,
        loss_age_weight = 1, scheduler_patience = 10, suffix = ''1''\<rparr> = ''adamw''
   \<and> train \<lparr>py_str_dict = (\<lambda>d. ''{}''), py_str_list = (\<lambda>vs. ''[]'')\<rparr>
       \<lparr>global_accuracy = (\<lambda>cm. 1), average_accuracy = (\<lambda>cm. 1), matthews_corrcoef = (\<lambda>cm. 1),
        class_accuracy = (\<lambda>cm. [])\<rparr>
       \<lparr>init_optim = (\<lambda>opt rate pm patience. ()), forward = (\<lambda>training s img. [(0, 0)]),
        backward_step = (\<lambda>s b loss. ()), scheduler_step = (\<lambda>s met. ()),
        current_lr = (\<lambda>s. 0)\<rparr>
       \<lparr>loader_train = (\<lambda>k. [((), [1], [1])]), loader_valid = (\<lambda>k. [((), [1], [1])]),
        loader_test = (\<lambda>k. [((), [1], [1])])\<rparr>
       \<lparr>log_dir = ''logs'', save_path = ''saved'', lr = 1, optimizer_name = ''adamw'',
        n_epochs = 4, batch_size = 16, scheduler_mode = ''max_foo'', steps_save = 1,
        loss_age_weight = 1, scheduler_patience = 10, suffix = ''1''\<rparr>
       []
   = \<lparr>raised = Some (Exception ''Optimizer not configured''),
      final_dict_model =
        [(''train_lr'', PFloat 1), (''train_optimizer_name'', PStr ''adamw''),
         (''train_batch_size'', PInt 16), (''train_scheduler_mode'', PStr ''max_foo''),
         (''train_loss_age_weight'', PFloat 1), (''train_suffix'', PStr ''1'')],
      all_effects = [SummaryWriter ''logs'' [], LoadData]\<rparr>"
  using train_unknown_name[where a = "\<lparr>log_dir = ''logs'', save_path = ''saved'', lr = 1,
        optimizer_name = ''adamw'',
        n_epochs = 4, batch_size = 16, scheduler_mode = ''max_foo'', steps_save = 1,
        loss_age_weight = 1, scheduler_patience = 10, suffix = ''1''\<rparr>"
      and B = "\<lparr>py_str_dict = (\<lambda>d. ''{}''), py_str_list = (\<lambda>vs. ''[]'')\<rparr>"
      and dict_model = "[]"]
  by (simp add: dict_param_def name_dict_def name_model_def py_slice_def replace_char_def)

subsection \<open>The loss of a training batch\<close>

lemma train_batches_append:
  "train_batches L w (xs @ ys) st = train_batches L w ys (train_batches L w xs st)"
  by (induction xs arbitrary: st) auto

lemma train_batch_fields:
  "ep_trace (train_batch L w st (img, age, gender)) =
     ep_trace st @ [Backward (BCEWithLogitsLoss (map fst (forward L True (ep_weights st) img)) gender
        + w * MSELoss (map snd (forward L True (ep_weights st) img)) age)]"
  "ep_train_loss (train_batch L w st (img, age, gender)) =
     ep_train_loss st @ [BCEWithLogitsLoss (map fst (forward L True (ep_weights st) img)) gender
        + w * MSELoss (map snd (forward L True (ep_weights st) img)) age]"
  "ep_train_cm (train_batch L w st (img, age, gender)) =
     ep_train_cm st @ [(predicted_gender (forward L True (ep_weights st) img), gender)]"
  by (simp_all add: train_batch_def Let_def cm_add_def)

lemma train_batch_lengths:
  "length (ep_trace (train_batch L w st b)) = Suc (length (ep_trace st))"
  "length (ep_train_loss (train_batch L w st b)) = Suc (length (ep_train_loss st))"
  "length (ep_train_cm (train_batch L w st b)) = Suc (length (ep_train_cm st))"
  by (cases b; simp add: train_batch_fields)+

lemma train_batches_lengths:
  "length (ep_trace (train_batches L w bs st)) = length (ep_trace st) + length bs"
  "length (ep_train_loss (train_batches L w bs st)) = length (ep_train_loss st) + length bs"
  "length (ep_train_cm (train_batches L w bs st)) = length (ep_train_cm st) + length bs"
  by (induction bs arbitrary: st; simp add: train_batch_lengths)+

lemma train_batches_extend:
  "\<exists>tr ls cm. ep_trace (train_batches L w bs st) = ep_trace st @ tr
      \<and> ep_train_loss (train_batches L w bs st) = ep_train_loss st @ ls
      \<and> ep_train_cm (train_batches L w bs st) = ep_train_cm st @ cm"
proof (induction bs arbitrary: st)
  case Nil
  then show ?case by simp
next
  case (Cons b bs)
  obtain img age gender where b: "b = (img, age, gender)" by (cases b) auto
  from Cons[of "train_batch L w st b"] show ?case
    by (auto simp: b train_batch_fields)
qed

text \<open>
  Claim C7. For the batch at any position \<open>i\<close> of the training loader, with \<open>pred\<close> the
  output of the model as the batches before it have left it, the loss handed to
  \<open>backward\<close> (and appended to \<open>train_loss\<close>) is the binary cross-entropy with logits of
  column 0 against the gender labels plus the weight \<open>w\<close> times the mean squared error
  of column 1 against the ages, and the training confusion matrix receives the
  predictions \<open>logit > 0\<close> against the gender labels. In \<open>train\<close> the weight is
  \<open>loss_age_weight\<close>.
\<close>

theorem train_batches_loss:
  assumes "i < length batches"
    and "batches ! i = (img, age, gender)"
    and "pred = forward L True
        (ep_weights (train_batches L w (take i batches) (epoch_start s))) img"
  shows "ep_trace (train_batches L w batches (epoch_start s)) ! i =
       Backward (BCEWithLogitsLoss (map fst pred) gender + w * MSELoss (map snd pred) age)
   \<and> ep_train_loss (train_batches L w batches (epoch_start s)) ! i =
       BCEWithLogitsLoss (map fst pred) gender + w * MSELoss (map snd pred) age
   \<and> ep_train_cm (train_batches L w batches (epoch_start s)) ! i =
       (map (\<lambda>r. if fst r > 0 then 1 else 0) pred, gender)"
proof -
  define st where "st = train_batches L w (take i batches) (epoch_start s)"
  have split: "batches = take i batches @ batches ! i # drop (Suc i) batches"
    using assms(1) by (simp add: id_take_nth_drop)
  have fin: "train_batches L w batches (epoch_start s) =
      train_batches L w (drop (Suc i) batches) (train_batch L w st (img, age, gender))"
    by (subst split) (simp add: train_batches_append st_def assms(2))
  have len: "length (ep_trace st) = i" "length (ep_train_loss st) = i" "length (ep_train_cm st) = i"
    using assms(1) by (simp_all add: st_def train_batches_lengths epoch_start_def cm_new_def)
  obtain tr ls cm where ext:
    "ep_trace (train_batches L w batches (epoch_start s)) =
       ep_trace (train_batch L w st (img, age, gender)) @ tr"
    "ep_train_loss (train_batches L w batches (epoch_start s)) =
       ep_train_loss (train_batch L w st (img, age, gender)) @ ls"
    "ep_train_cm (train_batches L w batches (epoch_start s)) =
       ep_train_cm (train_batch L w st (img, age, gender)) @ cm"
    using train_batches_extend[of L w "drop (Suc i) batches" "train_batch L w st (img, age, gender)"]
    unfolding fin by blast
  have pred: "pred = forward L True (ep_weights st) img" by (simp add: assms(3) st_def)
  show ?thesis
    unfolding ext train_batch_fields
    by (simp add: nth_append len pred predicted_gender_def comp_def)
qed

text \<open>One batch of one image, a model that answers the logit 2 and the age 3.\<close>

theorem train_batches_loss_witness:
  "(0::nat) < length [((), [1 :: real], [1 :: real])]
   \<and> ep_trace (train_batches
        \<lparr>init_optim = (\<lambda>opt rate pm patience. ()), forward = (\<lambda>training s img. [(2, 3)]),
         backward_step = (\<lambda>s b loss. ()), scheduler_step = (\<lambda>s met. ()),
         current_lr = (\<lambda>s. 0)\<rparr> (1 / 100) [((), [1], [1])] (epoch_start ())) ! 0
     = Backward (BCEWithLogitsLoss [2] [1] + 1 / 100 * MSELoss [3] [1])
   \<and> ep_train_cm (train_batches
        \<lparr>init_optim = (\<lambda>opt rate pm patience. ()), forward = (\<lambda>training s img. [(2, 3)]),
         backward_step = (\<lambda>s b loss. ()), scheduler_step = (\<lambda>s met. ()),
         current_lr = (\<lambda>s. 0)\<rparr> (1 / 100) [((), [1], [1])] (epoch_start ())) ! 0
     = ([1], [1])"
  using train_batches_loss[where i = 0 and batches = "[((), [1], [1])]" and img = "()"
      and age = "[1]" and gender = "[1]" and pred = "[(2, 3)]" and s = "()" and w = "1 / 100"
      and L = "\<lparr>init_optim = (\<lambda>opt rate pm patience. ()), forward = (\<lambda>training s img. [(2, 3)]),
         backward_step = (\<lambda>s b loss. ()), scheduler_step = (\<lambda>s met. ()),
         current_lr = (\<lambda>s. 0)\<rparr>"]
  by simp

section \<open>Properties of test\<close>

lemma dict_result_lookup:
  "map (dict_get (dict_update d (dict_result C r)))
     [''train_mae'', ''val_mae'', ''test_mae'', ''train_mse'', ''val_mse'', ''test_mse'',
      ''train_mcc'', ''val_mcc'', ''test_mcc'', ''train_acc'', ''val_acc'', ''test_acc'']
   = map (\<lambda>x. Some (PFloat x))
     [np_mean (sp_mae (rs_train r)), np_mean (sp_mae (rs_val r)), np_mean (sp_mae (rs_test r)),
      np_mean (sp_mse (rs_train r)), np_mean (sp_mse (rs_val r)), np_mean (sp_mse (rs_test r)),
      np_mean (map (matthews_corrcoef C) (sp_cm (rs_train r))),
      np_mean (map (matthews_corrcoef C) (sp_cm (rs_val r))),
      np_mean (map (matthews_corrcoef C) (sp_cm (rs_test r))),
      np_mean (map (global_accuracy C) (sp_cm (rs_train r))),
      np_mean (map (global_accuracy C) (sp_cm (rs_val r))),
      np_mean (map (global_accuracy C) (sp_cm (rs_test r)))]"
  by (simp add: dict_result_def dict_get_set)

lemma dict_result_frame:
  "k \<notin> set [''train_mae'', ''val_mae'', ''test_mae'', ''train_mse'', ''val_mse'', ''test_mse'',
      ''train_mcc'', ''val_mcc'', ''test_mcc'', ''train_acc'', ''val_acc'', ''test_acc'']
   \<Longrightarrow> dict_get (dict_update d (dict_result C r)) k = dict_get d k"
  by (simp add: dict_result_def dict_get_set)

lemma test_runs_map:
  "test_runs fwd model D ks acc =
     \<lparr>rs_train =
        \<lparr>sp_mse = sp_mse (rs_train acc)
            @ map (\<lambda>k. np_mean (run_mse (eval_split fwd model (loader_train D k)))) ks,
         sp_mae = sp_mae (rs_train acc)
            @ map (\<lambda>k. np_mean (run_mae (eval_split fwd model (loader_train D k)))) ks,
         sp_cm = sp_cm (rs_train acc)
            @ map (\<lambda>k. run_cm (eval_split fwd model (loader_train D k))) ks\<rparr>,
      rs_val =
        \<lparr>sp_mse = sp_mse (rs_val acc)
            @ map (\<lambda>k. np_mean (run_mse (eval_split fwd model (loader_valid D k)))) ks,
         sp_mae = sp_mae (rs_val acc)
            @ map (\<lambda>k. np_mean (run_mae (eval_split fwd model (loader_valid D k)))) ks,
         sp_cm = sp_cm (rs_val acc)
            @ map (\<lambda>k. run_cm (eval_split fwd model (loader_valid D k))) ks\<rparr>,
      rs_test =
        \<lparr>sp_mse = sp_mse (rs_test acc)
            @ map (\<lambda>k. np_mean (run_mse (eval_split fwd model (loader_test D k)))) ks,
         sp_mae = sp_mae (rs_test acc)
            @ map (\<lambda>k. np_mean (run_mae (eval_split fwd model (loader_test D k)))) ks,
         sp_cm = sp_cm (rs_test acc)
            @ map (\<lambda>k. run_cm (eval_split fwd model (loader_test D k))) ks\<rparr>\<rparr>"
  by (induction ks arbitrary: acc) (simp_all add: append_run_def)

lemma test_folders_result:
  assumes "test_folders C lm fwd ld n save paths (bs0, evs0) = Inr (bs, evs)"
  shows "bs = bs0 @ map (\<lambda>p. case lm p of Inr (model, dm) \<Rightarrow>
            \<lparr>bundle_dict = dict_update dm (dict_result C
                 (test_runs fwd model (ld p) [0..<nat n] no_runs)),
             bundle_train_cm = sp_cm (rs_train (test_runs fwd model (ld p) [0..<nat n] no_runs)),
             bundle_val_cm = sp_cm (rs_val (test_runs fwd model (ld p) [0..<nat n] no_runs)),
             bundle_test_cm = sp_cm (rs_test (test_runs fwd model (ld p) [0..<nat n] no_runs))\<rparr>)
          paths
     \<and> (\<forall>p\<in>set paths. \<exists>model dm. lm p = Inr (model, dm))"
  using assms
proof (induction paths arbitrary: bs0 evs0)
  case Nil
  then show ?case by simp
next
  case (Cons p paths)
  from Cons.prems obtain model dm where lm: "lm p = Inr (model, dm)"
    by (auto split: sum.splits)
  from Cons.prems lm obtain bs1 evs1 where
    rest: "test_folders C lm fwd ld n save paths (bs1, evs1) = Inr (bs, evs)"
    and bs1: "bs1 = bs0 @ [\<lparr>bundle_dict = dict_update dm (dict_result C
                 (test_runs fwd model (ld p) [0..<nat n] no_runs)),
             bundle_train_cm = sp_cm (rs_train (test_runs fwd model (ld p) [0..<nat n] no_runs)),
             bundle_val_cm = sp_cm (rs_val (test_runs fwd model (ld p) [0..<nat n] no_runs)),
             bundle_test_cm = sp_cm (rs_test (test_runs fwd model (ld p) [0..<nat n] no_runs))\<rparr>]"
    by (simp add: Let_def)
  from Cons.IH[OF rest] show ?case
    by (simp add: bs1 lm)
qed

lemma np_mean_runs: "0 < n \<Longrightarrow> length xs = nat n \<Longrightarrow> np_mean xs = sum_list xs / real_of_int n"
  by (simp add: np_mean_def)

text \<open>
  Claim C9. When \<open>test\<close> returns, for at least one run, the list has one element per
  folder. The element of folder \<open>i\<close> holds, for each of the three splits, the confusion
  matrices of the runs, \<open>n_runs\<close> of them, and the record loaded from the folder updated
  so that each of the twelve metric keys holds the sum over the runs of the per-run
  value divided by \<open>n_runs\<close>; every other key of the record is as loaded.
\<close>

theorem test_aggregates:
  assumes "test C load_model fwd load_data paths n_runs save = Inr (results, evs)"
    and "0 < n_runs"
    and "i < length paths"
  shows "length results = length paths \<and>
     (\<exists>model dm. load_model (paths ! i) = Inr (model, dm) \<and>
       (let D = load_data (paths ! i);
            b = results ! i;
            cms = (\<lambda>loader. map (\<lambda>k. run_cm (eval_split fwd model (loader D k))) [0..<nat n_runs]);
            per = (\<lambda>loader f. map (\<lambda>k. f (eval_split fwd model (loader D k))) [0..<nat n_runs]);
            mean = (\<lambda>xs. sum_list xs / real_of_int n_runs)
        in bundle_train_cm b = cms loader_train
         \<and> bundle_val_cm b = cms loader_valid
         \<and> bundle_test_cm b = cms loader_test
         \<and> length (bundle_train_cm b) = nat n_runs
         \<and> length (bundle_val_cm b) = nat n_runs
         \<and> length (bundle_test_cm b) = nat n_runs
         \<and> map (dict_get (bundle_dict b))
              [''train_mae'', ''val_mae'', ''test_mae'', ''train_mse'', ''val_mse'', ''test_mse'',
               ''train_mcc'', ''val_mcc'', ''test_mcc'', ''train_acc'', ''val_acc'', ''test_acc'']
            = map (\<lambda>x. Some (PFloat x))
              [mean (per loader_train (\<lambda>r. np_mean (run_mae r))),
               mean (per loader_valid (\<lambda>r. np_mean (run_mae r))),
               mean (per loader_test (\<lambda>r. np_mean (run_mae r))),
               mean (per loader_train (\<lambda>r. np_mean (run_mse r))),
               mean (per loader_valid (\<lambda>r. np_mean (run_mse r))),
               mean (per loader_test (\<lambda>r. np_mean (run_mse r))),
               mean (map (matthews_corrcoef C) (cms loader_train)),
               mean (map (matthews_corrcoef C) (cms loader_valid)),
               mean (map (matthews_corrcoef C) (cms loader_test)),
               mean (map (global_accuracy C) (cms loader_train)),
               mean (map (global_accuracy C) (cms loader_valid)),
               mean (map (global_accuracy C) (cms loader_test))]
         \<and> (\<forall>k. k \<notin> set [''train_mae'', ''val_mae'', ''test_mae'', ''train_mse'', ''val_mse'',
                    ''test_mse'', ''train_mcc'', ''val_mcc'', ''test_mcc'', ''train_acc'',
                    ''val_acc'', ''test_acc'']
              \<longrightarrow> dict_get (bundle_dict b) k = dict_get dm k)))"
proof -
  from assms(1) have tf:
    "test_folders C load_model fwd load_data n_runs save paths ([], []) = Inr (results, evs)"
    by (simp add: test_def)
  note res = test_folders_result[OF tf]
  have len: "length results = length paths" using res by simp
  have "paths ! i \<in> set paths" using assms(3) by simp
  then obtain model dm where lm: "load_model (paths ! i) = Inr (model, dm)"
    using res by blast
  define r where "r = test_runs fwd model (load_data (paths ! i)) [0..<nat n_runs] no_runs"
  have b: "results ! i =
      \<lparr>bundle_dict = dict_update dm (dict_result C r), bundle_train_cm = sp_cm (rs_train r),
       bundle_val_cm = sp_cm (rs_val r), bundle_test_cm = sp_cm (rs_test r)\<rparr>"
    using res assms(3) by (simp add: lm r_def)
  have r: "r = \<lparr>rs_train =
        \<lparr>sp_mse = map (\<lambda>k. np_mean (run_mse (eval_split fwd model
             (loader_train (load_data (paths ! i)) k)))) [0..<nat n_runs],
         sp_mae = map (\<lambda>k. np_mean (run_mae (eval_split fwd model
             (loader_train (load_data (paths ! i)) k)))) [0..<nat n_runs],
         sp_cm = map (\<lambda>k. run_cm (eval_split fwd model
             (loader_train (load_data (paths ! i)) k))) [0..<nat n_runs]\<rparr>,
      rs_val =
        \<lparr>sp_mse = map (\<lambda>k. np_mean (run_mse (eval_split fwd model
             (loader_valid (load_data (paths ! i)) k)))) [0..<nat n_runs],
         sp_mae = map (\<lambda>k. np_mean (run_mae (eval_split fwd model
             (loader_valid (load_data (paths ! i)) k)))) [0..<nat n_runs],
         sp_cm = map (\<lambda>k. run_cm (eval_split fwd model
             (loader_valid (load_data (paths ! i)) k))) [0..<nat n_runs]\<rparr>,
      rs_test =
        \<lparr>sp_mse = map (\<lambda>k. np_mean (run_mse (eval_split fwd model
             (loader_test (load_data (paths ! i)) k)))) [0..<nat n_runs],
         sp_mae = map (\<lambda>k. np_mean (run_mae (eval_split fwd model
             (loader_test (load_data (paths ! i)) k)))) [0..<nat n_runs],
         sp_cm = map (\<lambda>k. run_cm (eval_split fwd model
             (loader_test (load_data (paths ! i)) k))) [0..<nat n_runs]\<rparr>\<rparr>"
    unfolding r_def by (subst test_runs_map) (simp add: no_runs_def)
  have proj:
    "sp_mse (rs_train r) = map (\<lambda>k. np_mean (run_mse (eval_split fwd model
             (loader_train (load_data (paths ! i)) k)))) [0..<nat n_runs]"
    "sp_mae (rs_train r) = map (\<lambda>k. np_mean (run_mae (eval_split fwd model
             (loader_train (load_data (paths ! i)) k)))) [0..<nat n_runs]"
    "sp_cm (rs_train r) = map (\<lambda>k. run_cm (eval_split fwd model
             (loader_train (load_data (paths ! i)) k))) [0..<nat n_runs]"
    "sp_mse (rs_val r) = map (\<lambda>k. np_mean (run_mse (eval_split fwd model
             (loader_valid (load_data (paths ! i)) k)))) [0..<nat n_runs]"
    "sp_mae (rs_val r) = map (\<lambda>k. np_mean (run_mae (eval_split fwd model
             (loader_valid (load_data (paths ! i)) k)))) [0..<nat n_runs]"
    "sp_cm (rs_val r) = map (\<lambda>k. run_cm (eval_split fwd model
             (loader_valid (load_data (paths ! i)) k))) [0..<nat n_runs]"
    "sp_mse (rs_test r) = map (\<lambda>k. np_mean (run_mse (eval_split fwd model
             (loader_test (load_data (paths ! i)) k)))) [0..<nat n_runs]"
    "sp_mae (rs_test r) = map (\<lambda>k. np_mean (run_mae (eval_split fwd model
             (loader_test (load_data (paths ! i)) k)))) [0..<nat n_runs]"
    "sp_cm (rs_test r) = map (\<lambda>k. run_cm (eval_split fwd model
             (loader_test (load_data (paths ! i)) k))) [0..<nat n_runs]"
    by (subst r, simp)+
  have mean: "np_mean (map f [0..<nat n_runs]) = sum_list (map f [0..<nat n_runs]) / real_of_int n_runs"
    for f :: "nat \<Rightarrow> real"
    using np_mean_runs[OF assms(2), of "map f [0..<nat n_runs]"] by simp
  have look: "map (dict_get (bundle_dict (results ! i)))
       [''train_mae'', ''val_mae'', ''test_mae'', ''train_mse'', ''val_mse'', ''test_mse'',
        ''train_mcc'', ''val_mcc'', ''test_mcc'', ''train_acc'', ''val_acc'', ''test_acc'']
     = map (\<lambda>x. Some (PFloat x))
       [np_mean (sp_mae (rs_train r)), np_mean (sp_mae (rs_val r)), np_mean (sp_mae (rs_test r)),
        np_mean (sp_mse (rs_train r)), np_mean (sp_mse (rs_val r)), np_mean (sp_mse (rs_test r)),
        np_mean (map (matthews_corrcoef C) (sp_cm (rs_train r))),
        np_mean (map (matthews_corrcoef C) (sp_cm (rs_val r))),
        np_mean (map (matthews_corrcoef C) (sp_cm (rs_test r))),
        np_mean (map (global_accuracy C) (sp_cm (rs_train r))),
        np_mean (map (global_accuracy C) (sp_cm (rs_val r))),
        np_mean (map (global_accuracy C) (sp_cm (rs_test r)))]"
    unfolding b using dict_result_lookup[of dm C r] by simp
  have frame: "dict_get (bundle_dict (results ! i)) k = dict_get dm k"
    if "k \<notin> set [''train_mae'', ''val_mae'', ''test_mae'', ''train_mse'', ''val_mse'',
                    ''test_mse'', ''train_mcc'', ''val_mcc'', ''test_mcc'', ''train_acc'',
                    ''val_acc'', ''test_acc'']" for k
    unfolding b using dict_result_frame[OF that, of dm C r] by simp
  have cms: "bundle_train_cm (results ! i) = sp_cm (rs_train r)"
    "bundle_val_cm (results ! i) = sp_cm (rs_val r)"
    "bundle_test_cm (results ! i) = sp_cm (rs_test r)"
    by (simp_all add: b)
  have body: "(let D = load_data (paths ! i);
            b = results ! i;
            cms = (\<lambda>loader. map (\<lambda>k. run_cm (eval_split fwd model (loader D k))) [0..<nat n_runs]);
            per = (\<lambda>loader f. map (\<lambda>k. f (eval_split fwd model (loader D k))) [0..<nat n_runs]);
            mean = (\<lambda>xs. sum_list xs / real_of_int n_runs)
        in bundle_train_cm b = cms loader_train
         \<and> bundle_val_cm b = cms loader_valid
         \<and> bundle_test_cm b = cms loader_test
         \<and> length (bundle_train_cm b) = nat n_runs
         \<and> length (bundle_val_cm b) = nat n_runs
         \<and> length (bundle_test_cm b) = nat n_runs
         \<and> map (dict_get (bundle_dict b))
              [''train_mae'', ''val_mae'', ''test_mae'', ''train_mse'', ''val_mse'', ''test_mse'',
               ''train_mcc'', ''val_mcc'', ''test_mcc'', ''train_acc'', ''val_acc'', ''test_acc'']
            = map (\<lambda>x. Some (PFloat x))
              [mean (per loader_train (\<lambda>r. np_mean (run_mae r))),
               mean (per loader_valid (\<lambda>r. np_mean (run_mae r))),
               mean (per loader_test (\<lambda>r. np_mean (run_mae r))),
               mean (per loader_train (\<lambda>r. np_mean (run_mse r))),
               mean (per loader_valid (\<lambda>r. np_mean (run_mse r))),
               mean (per loader_test (\<lambda>r. np_mean (run_mse r))),
               mean (map (matthews_corrcoef C) (cms loader_train)),
               mean (map (matthews_corrcoef C) (cms loader_valid)),
               mean (map (matthews_corrcoef C) (cms loader_test)),
               mean (map (global_accuracy C) (cms loader_train)),
               mean (map (global_accuracy C) (cms loader_valid)),
               mean (map (global_accuracy C) (cms loader_test))]
         \<and> (\<forall>k. k \<notin> set [''train_mae'', ''val_mae'', ''test_mae'', ''train_mse'', ''val_mse'',
                    ''test_mse'', ''train_mcc'', ''val_mcc'', ''test_mcc'', ''train_acc'',
                    ''val_acc'', ''test_acc'']
              \<longrightarrow> dict_get (bundle_dict b) k = dict_get dm k))"
    unfolding Let_def look cms
    apply (intro conjI allI impI)
    subgoal by (simp add: proj)
    subgoal by (simp add: proj)
    subgoal by (simp add: proj)
    subgoal by (simp add: proj)
    subgoal by (simp add: proj)
    subgoal by (simp add: proj)
    subgoal by (simp add: proj mean comp_def)
    subgoal for k using frame[of k] by simp
    done
  show ?thesis using len lm body by blast
qed

text \<open>One folder, two runs, one batch per loader and a model that predicts the age exactly.\<close>

theorem test_aggregates_witness:
  "test \<lparr>global_accuracy = (\<lambda>cm. 1), average_accuracy = (\<lambda>cm. 1), matthews_corrcoef = (\<lambda>cm. 1),
         class_accuracy = (\<lambda>cm. [])\<rparr>
        (\<lambda>p. Inr ((), [(''epoch'', PInt 3)])) (\<lambda>model img. [(1, 2)])
        (\<lambda>p. \<lparr>loader_train = (\<lambda>k. [((), [2], [1])]), loader_valid = (\<lambda>k. [((), [2], [1])]),
               loader_test = (\<lambda>k. [((), [2], [1])])\<rparr>)
        [''saved/m1''] 2 True
   = Inr ([\<lparr>bundle_dict =
              [(''epoch'', PInt 3), (''train_mae'', PFloat 0), (''val_mae'', PFloat 0),
               (''test_mae'', PFloat 0), (''train_mse'', PFloat 0), (''val_mse'', PFloat 0),
               (''test_mse'', PFloat 0), (''train_mcc'', PFloat 1), (''val_mcc'', PFloat 1),
               (''test_mcc'', PFloat 1), (''train_acc'', PFloat 1), (''val_acc'', PFloat 1),
               (''test_acc'', PFloat 1)],
            bundle_train_cm = [[([1], [1])], [([1], [1])]],
            bundle_val_cm = [[([1], [1])], [([1], [1])]],
            bundle_test_cm = [[([1], [1])], [([1], [1])]]\<rparr>],
          [LoadData,
           SaveDict
              [(''epoch'', PInt 3), (''train_mae'', PFloat 0), (''val_mae'', PFloat 0),
               (''test_mae'', PFloat 0), (''train_mse'', PFloat 0), (''val_mse'', PFloat 0),
               (''test_mse'', PFloat 0), (''train_mcc'', PFloat 1), (''val_mcc'', PFloat 1),
               (''test_mcc'', PFloat 1), (''train_acc'', PFloat 1), (''val_acc'', PFloat 1),
               (''test_acc'', PFloat 1)]
              ''saved/m1/m1.dict''])
   \<and> (0 :: int) < 2 \<and> (0 :: nat) < length [''saved/m1'']"
proof -
  have runs: "[0..<2] = [0, 1 :: nat]"
    by (simp add: upt_rec)
  have h: "test \<lparr>global_accuracy = (\<lambda>cm. 1), average_accuracy = (\<lambda>cm. 1), matthews_corrcoef = (\<lambda>cm. 1),
         class_accuracy = (\<lambda>cm. [])\<rparr>
        (\<lambda>p. Inr ((), [(''epoch'', PInt 3)])) (\<lambda>model img. [(1, 2)])
        (\<lambda>p. \<lparr>loader_train = (\<lambda>k. [((), [2], [1])]), loader_valid = (\<lambda>k. [((), [2], [1])]),
               loader_test = (\<lambda>k. [((), [2], [1])])\<rparr>)
        [''saved/m1''] 2 True
   = Inr ([\<lparr>bundle_dict =
              [(''epoch'', PInt 3), (''train_mae'', PFloat 0), (''val_mae'', PFloat 0),
               (''test_mae'', PFloat 0), (''train_mse'', PFloat 0), (''val_mse'', PFloat 0),
               (''test_mse'', PFloat 0), (''train_mcc'', PFloat 1), (''val_mcc'', PFloat 1),
               (''test_mcc'', PFloat 1), (''train_acc'', PFloat 1), (''val_acc'', PFloat 1),
               (''test_acc'', PFloat 1)],
            bundle_train_cm = [[([1], [1])], [([1], [1])]],
            bundle_val_cm = [[([1], [1])], [([1], [1])]],
            bundle_test_cm = [[([1], [1])], [([1], [1])]]\<rparr>],
          [LoadData,
           SaveDict
              [(''epoch'', PInt 3), (''train_mae'', PFloat 0), (''val_mae'', PFloat 0),
               (''test_mae'', PFloat 0), (''train_mse'', PFloat 0), (''val_mse'', PFloat 0),
               (''test_mse'', PFloat 0), (''train_mcc'', PFloat 1), (''val_mcc'', PFloat 1),
               (''test_mcc'', PFloat 1), (''train_acc'', PFloat 1), (''val_acc'', PFloat 1),
               (''test_acc'', PFloat 1)]
              ''saved/m1/m1.dict''])"
    by (simp add: test_def runs Let_def no_runs_def append_run_def eval_split_def eval_batch_def
        mean_squared_error_def mean_absolute_error_def np_mean_def cm_new_def cm_add_def
        predicted_gender_def dict_result_def path_name_def)
  show ?thesis
    using h test_aggregates[OF h, where i = 0] by simp
qed

end
